theory Spec2Isabelle
  imports Complex_Main "HOL-Library.Sublist"
begin

section \<open>Go values the analyzer works on\<close>

text \<open>
  Go strings are byte sequences, here \<^typ>\<open>string\<close> (a list of 8-bit characters; a
  character outside ASCII is its UTF-8 bytes). \<open>strings.Contains(s, substr)\<close> of the Go
  standard library reports whether \<open>substr\<close> occurs in \<open>s\<close> as a contiguous run of
  bytes; the empty string occurs in every string.
\<close>

fun Contains :: "string \<Rightarrow> string \<Rightarrow> bool" where
  "Contains [] substr = (substr = [])"
| "Contains (c # s) substr = (prefix substr (c # s) \<or> Contains s substr)"

text \<open>
  A Go slice is either \<open>nil\<close> or holds elements; the two are told apart by
  \<open>== nil\<close> and by the JSON encoder (\<open>null\<close> against \<open>[]\<close>). \<open>var xs []T\<close>
  declares a nil slice, \<open>[]T{}\<close> an empty one that is not nil. \<open>append(s, x)\<close>
  always returns a slice that is not nil; \<open>append(s, t...)\<close> with nothing to add
  returns \<open>s\<close> itself.
\<close>

datatype 'a slice = nil | Slice "'a list"

fun elems :: "'a slice \<Rightarrow> 'a list" where
  "elems nil = []"
| "elems (Slice xs) = xs"

definition append1 :: "'a slice \<Rightarrow> 'a \<Rightarrow> 'a slice" where
  "append1 s x = Slice (elems s @ [x])"

definition append_all :: "'a slice \<Rightarrow> 'a slice \<Rightarrow> 'a slice" where
  "append_all s t = (if elems t = [] then s else Slice (elems s @ elems t))"

section \<open>The result types\<close>

text \<open>
  The structs of the package, field by field. A field left out of a Go struct literal
  holds its zero value (\<open>0\<close>, the empty string, a nil slice); the model writes every
  field out. \<open>Confidence\<close> is a \<open>float64\<close> that only ever holds one of four decimal
  literals of the source. \<open>AnalysisTime\<close> is the reading of the clock.
\<close>

record SecurityIssue =
  Type :: string
  Description :: string
  Severity :: string
  LineNumber :: int
  Suggestion :: string

record PerformanceHint =
  Issue :: string
  Impact :: string
  Solution :: string
  CodeExample :: string
  LineNumber :: int
  Severity :: string

record BestPractice =
  Category :: string
  Current :: string
  Recommended :: string
  Reasoning :: string

record AIRecommendation =
  Type :: string
  Confidence :: real
  Recommendation :: string
  AutoFixCode :: string

type_synonym Time = int

record CodeAnalysis =
  SecurityIssues :: "SecurityIssue slice"
  PerformanceHints :: "PerformanceHint slice"
  BestPractices :: "BestPractice slice"
  AIRecommendations :: "AIRecommendation slice"
  AnalysisTime :: Time
  CodeComplexity :: int
  PerformanceScore :: int
  PerformanceGrade :: string
  FilePath :: string

section \<open>The syntax tree\<close>

text \<open>
  The tree comes from \<open>go/parser\<close>; the analyzer only distinguishes the node types
  below. Every node lists its children in the order \<open>ast.Walk\<close> visits them (fields
  that are nil left out). The two loop statements carry the line that
  \<open>fset.Position(n.Pos()).Line\<close> gives for them. A call has its \<open>Fun\<close> and its
  \<open>Args\<close>; a selector expression \<open>X.Sel\<close> has \<open>X\<close> and the name of the identifier
  \<open>Sel\<close>. \<open>OtherNode\<close> stands for every other node type and is tagged with the Go
  type name.
\<close>

datatype node =
    File "node list"
  | ForStmt int "node list"
  | RangeStmt int "node list"
  | IfStmt "node list"
  | SwitchStmt "node list"
  | TypeSwitchStmt "node list"
  | CallExpr node "node list"
  | SelectorExpr node string
  | Ident string
  | OtherNode string "node list"

fun children :: "node \<Rightarrow> node list" where
  "children (File ns) = ns"
| "children (ForStmt line ns) = ns"
| "children (RangeStmt line ns) = ns"
| "children (IfStmt ns) = ns"
| "children (SwitchStmt ns) = ns"
| "children (TypeSwitchStmt ns) = ns"
| "children (CallExpr fn args) = fn # args"
| "children (SelectorExpr x sel) = [x, Ident sel]"
| "children (Ident name) = []"
| "children (OtherNode tag ns) = ns"

text \<open>The number of nodes of a tree, the measure every traversal decreases.\<close>

primrec weight :: "node \<Rightarrow> nat" where
  "weight (File ns) = Suc (sum_list (map weight ns))"
| "weight (ForStmt line ns) = Suc (sum_list (map weight ns))"
| "weight (RangeStmt line ns) = Suc (sum_list (map weight ns))"
| "weight (IfStmt ns) = Suc (sum_list (map weight ns))"
| "weight (SwitchStmt ns) = Suc (sum_list (map weight ns))"
| "weight (TypeSwitchStmt ns) = Suc (sum_list (map weight ns))"
| "weight (CallExpr fn args) = Suc (weight fn + sum_list (map weight args))"
| "weight (SelectorExpr x sel) = Suc (Suc (weight x))"
| "weight (Ident name) = Suc 0"
| "weight (OtherNode tag ns) = Suc (sum_list (map weight ns))"

lemma weight_children: "weight n = Suc (sum_list (map weight (children n)))"
  by (cases n) simp_all

lemma weight_pos: "0 < weight n"
  by (simp add: weight_children)

lemma weight_child: "c \<in> set (children n) \<Longrightarrow> weight c < weight n"
  using member_le_sum_list [of "weight c" "map weight (children n)"]
  by (simp add: weight_children less_Suc_eq_le)

text \<open>
  \<open>ast.Inspect(node, f)\<close> walks the tree depth first: it calls \<open>f(node)\<close>; when that
  returns true it inspects every child in turn and then calls \<open>f(nil)\<close>, whose result
  it ignores. The closures handed to it write to variables of the enclosing function;
  here \<open>f\<close> takes the captured variables as a state and returns them with its result.
\<close>

function Inspect :: "node \<Rightarrow> (node option \<Rightarrow> 's \<Rightarrow> bool \<times> 's) \<Rightarrow> 's \<Rightarrow> 's"
  and walkList :: "node list \<Rightarrow> (node option \<Rightarrow> 's \<Rightarrow> bool \<times> 's) \<Rightarrow> 's \<Rightarrow> 's" where
  "Inspect n f s =
     (case f (Some n) s of
        (True, s') \<Rightarrow> snd (f None (walkList (children n) f s'))
      | (False, s') \<Rightarrow> s')"
| "walkList [] f s = s"
| "walkList (c # cs) f s = walkList cs f (Inspect c f s)"
  by pat_completeness auto
termination
  by (relation "measure (\<lambda>x. case x of
          Inl (n, f, s) \<Rightarrow> 2 * weight n
        | Inr (ns, f, s) \<Rightarrow> 2 * sum_list (map weight ns) + 1)")
     (auto simp: weight_children weight_pos)

declare Inspect.simps [simp del]

section \<open>Text constants of the reports\<close>

text \<open>
  The code snippets attached to the findings, byte for byte as the source spells them
  (raw string literals, with their line breaks).
\<close>

definition in_memory_CodeExample :: string where
  "in_memory_CodeExample =
     ''// Use database instead\<newline>'' @
     ''import '' @ [CHR 0x22] @ ''database/sql'' @ [CHR 0x22] @ ''\<newline>'' @
     ''db, err := sql.Open('' @ [CHR 0x22] @ ''postgres'' @ [CHR 0x22] @ '', connectionString)\<newline>'' @
     ''// Store albums in database table''"

definition pooling_CodeExample :: string where
  "pooling_CodeExample =
     ''db.SetMaxOpenConns(25)\<newline>'' @
     ''db.SetMaxIdleConns(25)\<newline>'' @
     ''db.SetConnMaxLifetime(5 * time.Minute)''"

definition n1_for_CodeExample :: string where
  "n1_for_CodeExample =
     ''// '' @ [CHR 0xE2, CHR 0x9D, CHR 0x8C] @ '' Bad: N+1 queries\<newline>'' @
     ''for _, user := range users {\<newline>'' @
     ''    posts := db.Where('' @ [CHR 0x22] @ ''user_id = ?'' @ [CHR 0x22] @ '', user.ID).Find(&posts)\<newline>'' @
     ''}\<newline>'' @
     ''\<newline>'' @
     ''// '' @ [CHR 0xE2, CHR 0x9C, CHR 0x85] @ '' Good: Single query with JOIN\<newline>'' @
     ''db.Preload('' @ [CHR 0x22] @ ''Posts'' @ [CHR 0x22] @ '').Find(&users)''"

definition n1_range_CodeExample :: string where
  "n1_range_CodeExample =
     ''// '' @ [CHR 0xE2, CHR 0x9D, CHR 0x8C] @ '' Bad: Query in range loop\<newline>'' @
     ''for _, order := range orders {\<newline>'' @
     ''    db.Model(&order).Related(&order.Items)\<newline>'' @
     ''}\<newline>'' @
     ''\<newline>'' @
     ''// '' @ [CHR 0xE2, CHR 0x9C, CHR 0x85] @ '' Good: Preload related data\<newline>'' @
     ''db.Preload('' @ [CHR 0x22] @ ''Items'' @ [CHR 0x22] @ '').Find(&orders)''"

definition related_CodeExample :: string where
  "related_CodeExample =
     ''// '' @ [CHR 0xE2, CHR 0x9D, CHR 0x8C] @ '' Bad: N+1 with Related()\<newline>'' @
     ''for _, order := range orders {\<newline>'' @
     ''    db.Model(&order).Related(&order.Items)\<newline>'' @
     ''}\<newline>'' @
     ''\<newline>'' @
     ''// '' @ [CHR 0xE2, CHR 0x9C, CHR 0x85] @ '' Good: Preload related data\<newline>'' @
     ''db.Preload('' @ [CHR 0x22] @ ''Items'' @ [CHR 0x22] @ '').Find(&orders)''"

definition index_CodeExample :: string where
  "index_CodeExample =
     ''-- Add these indexes to your migration:\<newline>'' @
     ''CREATE INDEX idx_users_email ON users(email);\<newline>'' @
     ''CREATE INDEX idx_posts_status ON posts(status);\<newline>'' @
     ''CREATE INDEX idx_orders_created_at ON orders(created_at);\<newline>'' @
     ''\<newline>'' @
     ''-- For GORM, add to your struct:\<newline>'' @
     ''type User struct {\<newline>'' @
     ''    Email string '' @ [CHR 0x5C] @ ''`gorm:'' @ [CHR 0x22] @ ''index'' @ [CHR 0x22] @ ''`\<newline>'' @
     ''}''"

definition pagination_CodeExample :: string where
  "pagination_CodeExample =
     ''// '' @ [CHR 0xE2, CHR 0x9D, CHR 0x8C] @ '' Bad: Return all records\<newline>'' @
     ''var users []User\<newline>'' @
     ''db.Find(&users)\<newline>'' @
     ''c.JSON(200, users)\<newline>'' @
     ''\<newline>'' @
     ''// '' @ [CHR 0xE2, CHR 0x9C, CHR 0x85] @ '' Good: Paginated response\<newline>'' @
     ''page, _ := strconv.Atoi(c.DefaultQuery('' @ [CHR 0x22] @ ''page'' @ [CHR 0x22] @ '', '' @ [CHR 0x22] @ ''1'' @ [CHR 0x22] @ ''))\<newline>'' @
     ''limit, _ := strconv.Atoi(c.DefaultQuery('' @ [CHR 0x22] @ ''limit'' @ [CHR 0x22] @ '', '' @ [CHR 0x22] @ ''20'' @ [CHR 0x22] @ ''))\<newline>'' @
     ''offset := (page - 1) * limit\<newline>'' @
     ''\<newline>'' @
     ''var users []User\<newline>'' @
     ''var total int64\<newline>'' @
     ''db.Model(&User{}).Count(&total)\<newline>'' @
     ''db.Offset(offset).Limit(limit).Find(&users)\<newline>'' @
     ''\<newline>'' @
     ''c.JSON(200, gin.H{\<newline>'' @
     ''    '' @ [CHR 0x22] @ ''data'' @ [CHR 0x22] @ '': users, \<newline>'' @
     ''    '' @ [CHR 0x22] @ ''page'' @ [CHR 0x22] @ '': page,\<newline>'' @
     ''    '' @ [CHR 0x22] @ ''total'' @ [CHR 0x22] @ '': total,\<newline>'' @
     ''    '' @ [CHR 0x22] @ ''pages'' @ [CHR 0x22] @ '': (total + int64(limit) - 1) / int64(limit),\<newline>'' @
     ''})''"

definition caching_CodeExample :: string where
  "caching_CodeExample =
     ''// Add caching for expensive operations\<newline>'' @
     ''func getExpensiveReport(c *gin.Context) {\<newline>'' @
     ''    cacheKey := '' @ [CHR 0x22] @ ''report_'' @ [CHR 0x22] @ '' + c.Query('' @ [CHR 0x22] @ ''type'' @ [CHR 0x22] @ '')\<newline>'' @
     ''    \<newline>'' @
     ''    // Check cache first\<newline>'' @
     ''    if cached, exists := cache.Get(cacheKey); exists {\<newline>'' @
     ''        c.JSON(200, cached)\<newline>'' @
     ''        return\<newline>'' @
     ''    }\<newline>'' @
     ''    \<newline>'' @
     ''    // Calculate only if not cached\<newline>'' @
     ''    result := calculateExpensiveReport()\<newline>'' @
     ''    cache.Set(cacheKey, result, 5*time.Minute)\<newline>'' @
     ''    c.JSON(200, result)\<newline>'' @
     ''}\<newline>'' @
     ''\<newline>'' @
     ''// Or use middleware caching\<newline>'' @
     ''router.GET('' @ [CHR 0x22] @ ''/reports'' @ [CHR 0x22] @ '', cache.CachePage(store, time.Minute*5, getReports))''"

definition architecture_AutoFixCode :: string where
  "architecture_AutoFixCode =
     ''type AlbumRepository interface {\<newline>'' @
     ''    GetAll(ctx context.Context) ([]Album, error)\<newline>'' @
     ''    GetByID(ctx context.Context, id string) (*Album, error)\<newline>'' @
     ''    Create(ctx context.Context, album Album) error\<newline>'' @
     ''    Update(ctx context.Context, album Album) error\<newline>'' @
     ''    Delete(ctx context.Context, id string) error\<newline>'' @
     ''}''"

definition middleware_AutoFixCode :: string where
  "middleware_AutoFixCode =
     ''router.Use(gin.Logger())\<newline>'' @
     ''router.Use(gin.Recovery())\<newline>'' @
     ''router.Use(cors.Default())\<newline>'' @
     ''router.Use(rateLimitMiddleware())''"

definition api_design_AutoFixCode :: string where
  "api_design_AutoFixCode =
     ''v1 := router.Group('' @ [CHR 0x22] @ ''/api/v1'' @ [CHR 0x22] @ '')\<newline>'' @
     ''{\<newline>'' @
     ''    v1.GET('' @ [CHR 0x22] @ ''/albums'' @ [CHR 0x22] @ '', getAlbums)\<newline>'' @
     ''    v1.POST('' @ [CHR 0x22] @ ''/albums'' @ [CHR 0x22] @ '', postAlbums)\<newline>'' @
     ''    v1.GET('' @ [CHR 0x22] @ ''/albums/:id'' @ [CHR 0x22] @ '', getAlbumByID)\<newline>'' @
     ''}''"

definition testing_AutoFixCode :: string where
  "testing_AutoFixCode =
     ''func TestGetAlbums(t *testing.T) {\<newline>'' @
     ''    router := setupRouter()\<newline>'' @
     ''    w := httptest.NewRecorder()\<newline>'' @
     ''    req, _ := http.NewRequest('' @ [CHR 0x22] @ ''GET'' @ [CHR 0x22] @ '', '' @ [CHR 0x22] @ ''/albums'' @ [CHR 0x22] @ '', nil)\<newline>'' @
     ''    router.ServeHTTP(w, req)\<newline>'' @
     ''    assert.Equal(t, 200, w.Code)\<newline>'' @
     ''}''"

section \<open>Security rules\<close>

text \<open>
  The findings of the security rules. The source writes each finding as a struct literal
  at the place where it is appended; a field the literal leaves out (\<open>LineNumber\<close>
  here) holds its zero value.
\<close>

definition missing_cors_issue :: SecurityIssue where
  "missing_cors_issue =
     \<lparr>SecurityIssue.Type = ''missing_cors'',
      Description = ''No CORS middleware detected - this can cause browser security issues'',
      SecurityIssue.Severity = ''medium'',
      SecurityIssue.LineNumber = 0,
      Suggestion = ''Add CORS middleware: router.Use(cors.Default())''\<rparr>"

definition insufficient_error_handling_issue :: SecurityIssue where
  "insufficient_error_handling_issue =
     \<lparr>SecurityIssue.Type = ''insufficient_error_handling'',
      Description = ''JSON binding without proper error responses'',
      SecurityIssue.Severity = ''medium'',
      SecurityIssue.LineNumber = 0,
      Suggestion = ''Return proper HTTP error codes for invalid JSON''\<rparr>"

definition hardcoded_secrets_issue :: SecurityIssue where
  "hardcoded_secrets_issue =
     \<lparr>SecurityIssue.Type = ''potential_hardcoded_secrets'',
      Description = ''Potential hardcoded secrets detected'',
      SecurityIssue.Severity = ''high'',
      SecurityIssue.LineNumber = 0,
      Suggestion = ''Use environment variables for sensitive data''\<rparr>"

definition sql_injection_issue :: SecurityIssue where
  "sql_injection_issue =
     \<lparr>SecurityIssue.Type = ''sql_injection_risk'',
      Description = ''Raw SQL queries detected - potential injection risk'',
      SecurityIssue.Severity = ''high'',
      SecurityIssue.LineNumber = 0,
      Suggestion = ''Use parameterized queries or ORM with proper escaping''\<rparr>"

definition detectSecurityIssues :: "node \<Rightarrow> string \<Rightarrow> SecurityIssue slice" where
  "detectSecurityIssues node code =
    (let issues = nil;
         issues =
           (if \<not> Contains code ''cors'' \<and> \<not> Contains code ''CORS''
            then append1 issues missing_cors_issue
            else issues);
         issues =
           (if Contains code ''BindJSON'' \<and> \<not> Contains code ''StatusBadRequest''
            then append1 issues insufficient_error_handling_issue
            else issues);
         issues =
           (if Contains code ''password'' \<or> Contains code ''secret'' \<or> Contains code ''token''
            then append1 issues hardcoded_secrets_issue
            else issues);
         issues =
           (if Contains code ''SELECT'' \<or> Contains code ''INSERT''
                \<or> Contains code ''UPDATE'' \<or> Contains code ''DELETE''
            then
              (if \<not> Contains code ''Prepare'' \<and> \<not> Contains code ''?''
               then append1 issues sql_injection_issue
               else issues)
            else issues)
     in issues)"

section \<open>Performance rules\<close>

definition dbMethods :: "string list" where
  "dbMethods =
    [''Find'', ''First'', ''Last'', ''Take'', ''Where'', ''Select'', ''Order'', ''Limit'', ''Offset'',
     ''Create'', ''Save'', ''Update'', ''UpdateColumn'', ''UpdateColumns'', ''Updates'',
     ''Delete'', ''Unscoped'', ''Raw'', ''Exec'', ''Scan'', ''Rows'', ''Row'',
     ''Count'', ''Group'', ''Having'', ''Joins'', ''Preload'', ''Related'', ''Association'']"

text \<open>The loop of \<open>isDBCall\<close> over the method names, leaving at the first equal one.\<close>

fun method_loop :: "string list \<Rightarrow> string \<Rightarrow> bool" where
  "method_loop [] name = False"
| "method_loop (method # methods) name =
     (if name = method then True else method_loop methods name)"

text \<open>\<open>isDBCall\<close> takes a call expression, given here by its two fields.\<close>

definition isDBCall :: "node \<Rightarrow> node list \<Rightarrow> bool" where
  "isDBCall Fun Args =
     (case Fun of
        SelectorExpr x sel \<Rightarrow> method_loop dbMethods sel
      | _ \<Rightarrow> False)"

text \<open>
  The inner closure of both loop patterns: it sets \<open>hasDBCall\<close> at a data-access call
  and does not descend into that call.
\<close>

definition hasDBCall_closure :: "node option \<Rightarrow> bool \<Rightarrow> bool \<times> bool" where
  "hasDBCall_closure inner hasDBCall =
     (case inner of
        Some (CallExpr Fun Args) \<Rightarrow>
          (if isDBCall Fun Args then (False, True) else (True, hasDBCall))
      | _ \<Rightarrow> (True, hasDBCall))"

text \<open>
  The findings of the performance rules, struct literals of the source as well. The two
  for the loops take the line of the loop.
\<close>

definition related_hint :: PerformanceHint where
  "related_hint =
     \<lparr>Issue = ''GORM N+1 Query with Related()'',
      Impact = [CHR 0xF0, CHR 0x9F, CHR 0x94, CHR 0xB4]
        @ '' CRITICAL: Each Related() call executes a separate query'',
      Solution = ''Use Preload() to fetch related data efficiently'',
      CodeExample = related_CodeExample,
      PerformanceHint.LineNumber = 0,
      PerformanceHint.Severity = ''critical''\<rparr>"

definition missing_index_hint :: PerformanceHint where
  "missing_index_hint =
     \<lparr>Issue = ''Potential Missing Database Index'',
      Impact = [CHR 0xF0, CHR 0x9F, CHR 0x9F, CHR 0xA0]
        @ '' HIGH: Query will scan entire table without proper index'',
      Solution = ''Add database index on frequently queried columns'',
      CodeExample = index_CodeExample,
      PerformanceHint.LineNumber = 0,
      PerformanceHint.Severity = ''high''\<rparr>"

definition pagination_hint :: PerformanceHint where
  "pagination_hint =
     \<lparr>Issue = ''Large Dataset Response Without Pagination'',
      Impact = [CHR 0xF0, CHR 0x9F, CHR 0x9F, CHR 0xA0]
        @ '' HIGH: Returning large datasets will cause slow responses and high memory usage'',
      Solution = ''Implement pagination for large data responses'',
      CodeExample = pagination_CodeExample,
      PerformanceHint.LineNumber = 0,
      PerformanceHint.Severity = ''high''\<rparr>"

definition caching_hint :: PerformanceHint where
  "caching_hint =
     \<lparr>Issue = ''Expensive Operation Without Caching'',
      Impact = [CHR 0xF0, CHR 0x9F, CHR 0x9F, CHR 0xA1]
        @ '' MEDIUM: Repeated expensive calculations will slow down your API'',
      Solution = ''Cache expensive operation results with Redis or in-memory cache'',
      CodeExample = caching_CodeExample,
      PerformanceHint.LineNumber = 0,
      PerformanceHint.Severity = ''medium''\<rparr>"

definition in_memory_hint :: PerformanceHint where
  "in_memory_hint =
     \<lparr>Issue = ''In-memory data storage'',
      Impact = [CHR 0xF0, CHR 0x9F, CHR 0x9F, CHR 0xA1]
        @ '' MEDIUM: Data lost on restart, not scalable, memory leaks'',
      Solution = ''Implement database persistence (PostgreSQL, MongoDB, etc.)'',
      CodeExample = in_memory_CodeExample,
      PerformanceHint.LineNumber = 0,
      PerformanceHint.Severity = ''medium''\<rparr>"

definition pooling_hint :: PerformanceHint where
  "pooling_hint =
     \<lparr>Issue = ''No database connection pooling'',
      Impact = [CHR 0xF0, CHR 0x9F, CHR 0x9F, CHR 0xA0]
        @ '' HIGH: Resource exhaustion, poor scalability'',
      Solution = ''Configure connection pool settings'',
      CodeExample = pooling_CodeExample,
      PerformanceHint.LineNumber = 0,
      PerformanceHint.Severity = ''high''\<rparr>"

definition forStmt_hint :: "int \<Rightarrow> PerformanceHint" where
  "forStmt_hint line =
     \<lparr>Issue = ''Potential N+1 Query Pattern'',
      Impact = [CHR 0xF0, CHR 0x9F, CHR 0x94, CHR 0xB4]
        @ '' CRITICAL: Could execute hundreds of database queries instead of one'',
      Solution = ''Use JOIN queries or eager loading to fetch related data in one query'',
      CodeExample = n1_for_CodeExample,
      PerformanceHint.LineNumber = line,
      PerformanceHint.Severity = ''critical''\<rparr>"

definition rangeStmt_hint :: "int \<Rightarrow> PerformanceHint" where
  "rangeStmt_hint line =
     \<lparr>Issue = ''N+1 Query in Range Loop'',
      Impact = [CHR 0xF0, CHR 0x9F, CHR 0x94, CHR 0xB4]
        @ '' CRITICAL: Database call inside range loop creates N+1 queries'',
      Solution = ''Extract database calls outside the loop or use batch queries'',
      CodeExample = n1_range_CodeExample,
      PerformanceHint.LineNumber = line,
      PerformanceHint.Severity = ''critical''\<rparr>"

definition forStmt_closure ::
    "node option \<Rightarrow> PerformanceHint slice \<Rightarrow> bool \<times> PerformanceHint slice" where
  "forStmt_closure n hints =
     (case n of
        Some (ForStmt line ns) \<Rightarrow>
          (let hasDBCall = Inspect (ForStmt line ns) hasDBCall_closure False
           in (True, if hasDBCall then append1 hints (forStmt_hint line) else hints))
      | _ \<Rightarrow> (True, hints))"

definition rangeStmt_closure ::
    "node option \<Rightarrow> PerformanceHint slice \<Rightarrow> bool \<times> PerformanceHint slice" where
  "rangeStmt_closure n hints =
     (case n of
        Some (RangeStmt line ns) \<Rightarrow>
          (let hasDBCall = Inspect (RangeStmt line ns) hasDBCall_closure False
           in (True, if hasDBCall then append1 hints (rangeStmt_hint line) else hints))
      | _ \<Rightarrow> (True, hints))"

definition detectN1QueryPatterns :: "node \<Rightarrow> string \<Rightarrow> PerformanceHint slice" where
  "detectN1QueryPatterns node code =
    (let hints = nil;
         hints = Inspect node forStmt_closure hints;
         hints = Inspect node rangeStmt_closure hints;
         hints =
           (if Contains code ''for'' \<and> Contains code ''.Related(''
            then append1 hints related_hint
            else hints)
     in hints)"

definition wherePatterns :: "string list" where
  "wherePatterns =
    [''WHERE name'', ''WHERE email'', ''WHERE status'', ''WHERE created_at'',
     ''LIKE '' @ [CHR 0x27] @ ''%'',
     ''.Where('' @ [CHR 0x22] @ ''name'',
     ''.Where('' @ [CHR 0x22] @ ''email'',
     ''.Where('' @ [CHR 0x22] @ ''status'']"

text \<open>The loop over the patterns; the \<open>break\<close> leaves it after the first hint.\<close>

fun wherePatterns_loop :: "string list \<Rightarrow> string \<Rightarrow> PerformanceHint slice \<Rightarrow> PerformanceHint slice" where
  "wherePatterns_loop [] code hints = hints"
| "wherePatterns_loop (pattern # patterns) code hints =
     (if Contains code pattern
      then append1 hints missing_index_hint
      else wherePatterns_loop patterns code hints)"

definition detectMissingIndexes :: "node \<Rightarrow> string \<Rightarrow> PerformanceHint slice" where
  "detectMissingIndexes node code = wherePatterns_loop wherePatterns code nil"

definition detectLargePayloadIssues :: "node \<Rightarrow> string \<Rightarrow> PerformanceHint slice" where
  "detectLargePayloadIssues node code =
    (let hints = nil;
         hints =
           (if (Contains code ''c.JSON'' \<or> Contains code ''json.Marshal'')
               \<and> (Contains code ''.Find(&'' \<or> Contains code ''SELECT *'')
               \<and> \<not> Contains code ''Limit'' \<and> \<not> Contains code ''LIMIT''
            then append1 hints pagination_hint
            else hints)
     in hints)"

definition expensiveOperations :: "string list" where
  "expensiveOperations =
    [''calculateReport'', ''generateStats'', ''getAggregated'',
     ''COUNT('', ''SUM('', ''AVG('', ''GROUP BY'', ''ORDER BY'']"

fun expensiveOperations_loop :: "string list \<Rightarrow> string \<Rightarrow> PerformanceHint slice \<Rightarrow> PerformanceHint slice" where
  "expensiveOperations_loop [] code hints = hints"
| "expensiveOperations_loop (op # ops) code hints =
     (if Contains code op \<and> \<not> Contains code ''cache'' \<and> \<not> Contains code ''Cache''
      then append1 hints caching_hint
      else expensiveOperations_loop ops code hints)"

definition detectMissingCaching :: "node \<Rightarrow> string \<Rightarrow> PerformanceHint slice" where
  "detectMissingCaching node code = expensiveOperations_loop expensiveOperations code nil"

definition detectPerformanceIssues :: "node \<Rightarrow> string \<Rightarrow> PerformanceHint slice" where
  "detectPerformanceIssues node code =
    (let hints = nil;
         hints = append_all hints (detectN1QueryPatterns node code);
         hints = append_all hints (detectMissingIndexes node code);
         hints = append_all hints (detectLargePayloadIssues node code);
         hints = append_all hints (detectMissingCaching node code);
         hints =
           (if Contains code ''var albums = []'' \<or> Contains code ''albums = append(''
            then append1 hints in_memory_hint
            else hints);
         hints =
           (if Contains code ''sql.Open'' \<and> \<not> Contains code ''SetMaxOpenConns''
            then append1 hints pooling_hint
            else hints)
     in hints)"

section \<open>Advisory rules\<close>

definition error_handling_practice :: BestPractice where
  "error_handling_practice =
     \<lparr>Category = ''Error Handling'',
      Current = ''Basic error handling'',
      Recommended = ''Structured error responses with proper HTTP status codes'',
      Reasoning = ''Better client experience, easier debugging, API consistency''\<rparr>"

definition request_validation_practice :: BestPractice where
  "request_validation_practice =
     \<lparr>Category = ''Request Validation'',
      Current = ''No input validation middleware'',
      Recommended = ''Add request validation and sanitization'',
      Reasoning = ''Prevent invalid data, improve security, reduce debugging time''\<rparr>"

definition logging_practice :: BestPractice where
  "logging_practice =
     \<lparr>Category = ''Logging'',
      Current = ''No structured logging'',
      Recommended = ''Add request/response logging with correlation IDs'',
      Reasoning = ''Essential for debugging production issues and monitoring''\<rparr>"

definition configuration_practice :: BestPractice where
  "configuration_practice =
     \<lparr>Category = ''Configuration'',
      Current = ''Hardcoded port and host'',
      Recommended = ''Use environment variables for configuration'',
      Reasoning = ''Enables different environments (dev, staging, prod)''\<rparr>"

definition suggestBestPractices :: "node \<Rightarrow> string \<Rightarrow> BestPractice slice" where
  "suggestBestPractices node code =
    (let practices = nil;
         practices = append1 practices error_handling_practice;
         practices =
           (if \<not> Contains code ''middleware''
            then append1 practices request_validation_practice
            else practices);
         practices =
           (if \<not> Contains code ''Logger''
            then append1 practices logging_practice
            else practices);
         practices =
           (if Contains code (''Run('' @ [CHR 0x22] @ ''localhost:8080'' @ [CHR 0x22] @ '')'')
            then append1 practices configuration_practice
            else practices)
     in practices)"

definition architecture_recommendation :: AIRecommendation where
  "architecture_recommendation =
     \<lparr>AIRecommendation.Type = ''architecture'',
      Confidence = 0.85,
      Recommendation = ''Consider implementing repository pattern for cleaner data access'',
      AutoFixCode = architecture_AutoFixCode\<rparr>"

definition middleware_recommendation :: AIRecommendation where
  "middleware_recommendation =
     \<lparr>AIRecommendation.Type = ''middleware'',
      Confidence = 0.92,
      Recommendation = ''Add essential middleware for production readiness'',
      AutoFixCode = middleware_AutoFixCode\<rparr>"

definition api_design_recommendation :: AIRecommendation where
  "api_design_recommendation =
     \<lparr>AIRecommendation.Type = ''api_design'',
      Confidence = 0.78,
      Recommendation = ''Add API versioning for future compatibility'',
      AutoFixCode = api_design_AutoFixCode\<rparr>"

definition testing_recommendation :: AIRecommendation where
  "testing_recommendation =
     \<lparr>AIRecommendation.Type = ''testing'',
      Confidence = 0.88,
      Recommendation = ''Add unit tests for better code reliability'',
      AutoFixCode = testing_AutoFixCode\<rparr>"

definition generateAIRecommendations :: "string \<Rightarrow> string \<Rightarrow> AIRecommendation slice" where
  "generateAIRecommendations code codeType =
    (let recommendations = nil;
         recommendations =
           (if Contains code ''func get'' \<and> Contains code ''func post''
            then append1 recommendations architecture_recommendation
            else recommendations);
         recommendations =
           (if \<not> Contains code ''Recovery()''
            then append1 recommendations middleware_recommendation
            else recommendations);
         recommendations =
           (if \<not> Contains code ''/v1/'' \<and> \<not> Contains code ''/api/v''
            then append1 recommendations api_design_recommendation
            else recommendations);
         recommendations =
           (if \<not> Contains code ''_test.go''
            then append1 recommendations testing_recommendation
            else recommendations)
     in recommendations)"

section \<open>Complexity and score\<close>

definition complexity_closure :: "node option \<Rightarrow> int \<Rightarrow> bool \<times> int" where
  "complexity_closure n complexity =
     (case n of
        Some (IfStmt ns) \<Rightarrow> (True, complexity + 1)
      | Some (ForStmt line ns) \<Rightarrow> (True, complexity + 1)
      | Some (RangeStmt line ns) \<Rightarrow> (True, complexity + 1)
      | Some (SwitchStmt ns) \<Rightarrow> (True, complexity + 1)
      | Some (TypeSwitchStmt ns) \<Rightarrow> (True, complexity + 1)
      | _ \<Rightarrow> (True, complexity))"

definition calculateComplexity :: "node \<Rightarrow> int" where
  "calculateComplexity node = Inspect node complexity_closure 0"

text \<open>
  The loop of \<open>calculatePerformanceScore\<close> over the hints. The score is a Go \<open>int\<close>
  (64 bits); it starts at 100 and loses at most 25 for each hint of a slice held in
  memory, so it stays far from the least \<open>int\<close> and is modelled by \<^typ>\<open>int\<close>.
\<close>

fun score_loop :: "PerformanceHint list \<Rightarrow> int \<Rightarrow> int" where
  "score_loop [] score = score"
| "score_loop (hint # hints) score =
     score_loop hints
       (if PerformanceHint.Severity hint = ''critical'' then score - 25
        else if PerformanceHint.Severity hint = ''high'' then score - 15
        else if PerformanceHint.Severity hint = ''medium'' then score - 10
        else if PerformanceHint.Severity hint = ''low'' then score - 5
        else score)"

definition calculatePerformanceScore :: "PerformanceHint slice \<Rightarrow> int \<times> string" where
  "calculatePerformanceScore hints =
    (let score = score_loop (elems hints) 100;
         score = (if score < 0 then 0 else score);
         grade =
           (if score \<ge> 95 then ''A+''
            else if score \<ge> 90 then ''A''
            else if score \<ge> 80 then ''B''
            else if score \<ge> 70 then ''C''
            else if score \<ge> 60 then ''D''
            else ''F'')
     in (score, grade))"

section \<open>The analysis of one file\<close>

text \<open>
  \<open>AnalyzeCode\<close> reads the clock and calls \<open>parser.ParseFile\<close> of the Go standard
  library. Both are handed to the model: \<open>now\<close> is the instant \<open>time.Now()\<close> gives,
  and \<open>ParseFile filePath code\<close> is either \<open>Inl\<close> of the text of the parse error or
  \<open>Inr\<close> of the tree.
\<close>

definition syntax_error_issue :: "string \<Rightarrow> SecurityIssue" where
  "syntax_error_issue err =
     \<lparr>SecurityIssue.Type = ''syntax_error'',
      Description = ''Code contains syntax errors'',
      SecurityIssue.Severity = ''high'',
      SecurityIssue.LineNumber = 0,
      Suggestion = ''Fix syntax errors before analysis: '' @ err\<rparr>"

definition AnalyzeCode ::
    "(string \<Rightarrow> string \<Rightarrow> string + node) \<Rightarrow> Time \<Rightarrow> string \<Rightarrow> string \<Rightarrow> string \<Rightarrow> CodeAnalysis" where
  "AnalyzeCode ParseFile now code codeType filePath =
    (let analysis =
           \<lparr>SecurityIssues = Slice [],
            PerformanceHints = Slice [],
            BestPractices = Slice [],
            AIRecommendations = Slice [],
            AnalysisTime = now,
            CodeComplexity = 0,
            PerformanceScore = 0,
            PerformanceGrade = [],
            FilePath = filePath\<rparr>
     in case ParseFile filePath code of
          Inl err \<Rightarrow>
            analysis\<lparr>SecurityIssues := append1 (SecurityIssues analysis) (syntax_error_issue err)\<rparr>
        | Inr node \<Rightarrow>
            (let analysis = analysis\<lparr>SecurityIssues := detectSecurityIssues node code\<rparr>;
                 analysis = analysis\<lparr>PerformanceHints := detectPerformanceIssues node code\<rparr>;
                 analysis = analysis\<lparr>BestPractices := suggestBestPractices node code\<rparr>;
                 analysis = analysis\<lparr>AIRecommendations := generateAIRecommendations code codeType\<rparr>;
                 analysis = analysis\<lparr>CodeComplexity := calculateComplexity node\<rparr>;
                 (score, grade) = calculatePerformanceScore (PerformanceHints analysis)
             in analysis\<lparr>PerformanceScore := score, PerformanceGrade := grade\<rparr>))"

section \<open>Notions of the specification\<close>

text \<open>
  The weights and the grade bands as the specification words them, to be compared
  with \<open>calculatePerformanceScore\<close>.
\<close>

definition severity_weight :: "string \<Rightarrow> int" where
  "severity_weight severity =
     (if severity = ''critical'' then 25
      else if severity = ''high'' then 15
      else if severity = ''medium'' then 10
      else if severity = ''low'' then 5
      else 0)"

definition total_weight :: "PerformanceHint list \<Rightarrow> int" where
  "total_weight hints = sum_list (map (\<lambda>h. severity_weight (PerformanceHint.Severity h)) hints)"

definition grade_band :: "int \<Rightarrow> string" where
  "grade_band score =
     (if 95 \<le> score then ''A+''
      else if 90 \<le> score then ''A''
      else if 80 \<le> score then ''B''
      else if 70 \<le> score then ''C''
      else if 60 \<le> score then ''D''
      else ''F'')"

definition grades :: "string list" where
  "grades = [''A+'', ''A'', ''B'', ''C'', ''D'', ''F'']"

text \<open>
  The nodes of a subtree, the root first, and the loops of a tree that have a
  data-access call somewhere below them: a call of a selector whose name is one of
  \<open>dbMethods\<close>.
\<close>

function nodes :: "node \<Rightarrow> node list" where
  "nodes n = n # concat (map nodes (children n))"
  by pat_completeness auto
termination
  by (relation "measure weight") (auto simp: weight_child)

declare nodes.simps [simp del]

definition is_data_access_call :: "node \<Rightarrow> bool" where
  "is_data_access_call n =
     (case n of
        CallExpr (SelectorExpr x sel) args \<Rightarrow> sel \<in> set dbMethods
      | _ \<Rightarrow> False)"

definition contains_data_access :: "node \<Rightarrow> bool" where
  "contains_data_access n = list_ex is_data_access_call (nodes n)"

definition for_hits :: "node \<Rightarrow> int list" where
  "for_hits n =
     (case n of
        ForStmt line ns \<Rightarrow> if contains_data_access n then [line] else []
      | _ \<Rightarrow> [])"

definition range_hits :: "node \<Rightarrow> int list" where
  "range_hits n =
     (case n of
        RangeStmt line ns \<Rightarrow> if contains_data_access n then [line] else []
      | _ \<Rightarrow> [])"

text \<open>The lines of the counted loops, and of the range loops, that reach a data-access call.\<close>

definition for_loop_lines :: "node \<Rightarrow> int list" where
  "for_loop_lines tree = concat (map for_hits (nodes tree))"

definition range_loop_lines :: "node \<Rightarrow> int list" where
  "range_loop_lines tree = concat (map range_hits (nodes tree))"

definition is_loop :: "node \<Rightarrow> bool" where
  "is_loop n = (case n of ForStmt line ns \<Rightarrow> True | RangeStmt line ns \<Rightarrow> True | _ \<Rightarrow> False)"

text \<open>
  The findings of the rules that read only the text, in the order
  \<open>detectPerformanceIssues\<close> appends them after the findings for the loops.
\<close>

definition text_rule_hints :: "string \<Rightarrow> PerformanceHint list" where
  "text_rule_hints code =
     (if Contains code ''for'' \<and> Contains code ''.Related('' then [related_hint] else [])
     @ (if list_ex (Contains code) wherePatterns then [missing_index_hint] else [])
     @ (if (Contains code ''c.JSON'' \<or> Contains code ''json.Marshal'')
           \<and> (Contains code ''.Find(&'' \<or> Contains code ''SELECT *'')
           \<and> \<not> Contains code ''Limit'' \<and> \<not> Contains code ''LIMIT''
        then [pagination_hint] else [])
     @ (if list_ex (Contains code) expensiveOperations
           \<and> \<not> Contains code ''cache'' \<and> \<not> Contains code ''Cache''
        then [caching_hint] else [])
     @ (if Contains code ''var albums = []'' \<or> Contains code ''albums = append(''
        then [in_memory_hint] else [])
     @ (if Contains code ''sql.Open'' \<and> \<not> Contains code ''SetMaxOpenConns''
        then [pooling_hint] else [])"

text \<open>
  The words of the text rules: the DML keywords of the SQL rule, and every other literal
  whose presence lets a security or performance rule fire.
\<close>

definition dml_keywords :: "string list" where
  "dml_keywords = [''SELECT'', ''INSERT'', ''UPDATE'', ''DELETE'']"

definition flagged_literals :: "string list" where
  "flagged_literals =
     [''BindJSON'', ''password'', ''secret'', ''token'', ''.Related('']
       @ wherePatterns @ [''c.JSON'', ''json.Marshal''] @ expensiveOperations
       @ [''var albums = []'', ''albums = append('', ''sql.Open'']"

section \<open>Example files\<close>

text \<open>
  Three texts and what \<open>go/parser\<close> makes of them. \<open>hello_code\<close> is the
  "simple valid Go code" of the package's tests, \<open>invalid_code\<close> their "invalid Go
  code"; \<open>loadPosts_code\<close> runs a query in a range loop. The empty text and
  \<open>invalid_code\<close> have no package clause, so the parser rejects them at their first
  position.
\<close>

definition hello_code :: string where
  "hello_code =
     ''package main\<newline>'' @
     ''\<newline>'' @
     ''import '' @ [CHR 0x22] @ ''fmt'' @ [CHR 0x22] @ ''\<newline>'' @
     ''\<newline>'' @
     ''func main() {\<newline>'' @
     [CHR 0x09] @ ''fmt.Println('' @ [CHR 0x22] @ ''Hello, World!'' @ [CHR 0x22] @ '')\<newline>'' @
     ''}''"

definition hello_tree :: node where
  "hello_tree =
     File
      [Ident ''main'',
       OtherNode ''GenDecl'' [OtherNode ''ImportSpec'' [OtherNode ''BasicLit'' []]],
       OtherNode ''FuncDecl''
        [Ident ''main'',
         OtherNode ''FuncType'' [OtherNode ''FieldList'' []],
         OtherNode ''BlockStmt''
          [OtherNode ''ExprStmt''
            [CallExpr (SelectorExpr (Ident ''fmt'') ''Println'') [OtherNode ''BasicLit'' []]]]]]"

definition invalid_code :: string where
  "invalid_code = ''this is not valid Go code''"

definition loadPosts_code :: string where
  "loadPosts_code =
     ''package main\<newline>'' @
     ''\<newline>'' @
     ''func loadPosts(users []User) {\<newline>'' @
     [CHR 0x09] @ ''for _, user := range users {\<newline>'' @
     [CHR 0x09, CHR 0x09] @ ''db.Raw('' @ [CHR 0x22] @ ''SELECT * FROM posts WHERE user_id = '' @ [CHR 0x22] @ '' + user.ID).Scan(&posts)\<newline>'' @
     [CHR 0x09] @ ''}\<newline>'' @
     ''}''"

definition loadPosts_loop :: node where
  "loadPosts_loop =
     RangeStmt 4
      [Ident ''_'', Ident ''user'', Ident ''users'',
       OtherNode ''BlockStmt''
        [OtherNode ''ExprStmt''
          [CallExpr
            (SelectorExpr
              (CallExpr (SelectorExpr (Ident ''db'') ''Raw'')
                [OtherNode ''BinaryExpr''
                  [OtherNode ''BasicLit'' [], SelectorExpr (Ident ''user'') ''ID'']])
              ''Scan'')
            [OtherNode ''UnaryExpr'' [Ident ''posts'']]]]]"

definition loadPosts_tree :: node where
  "loadPosts_tree =
     File
      [Ident ''main'',
       OtherNode ''FuncDecl''
        [Ident ''loadPosts'',
         OtherNode ''FuncType''
          [OtherNode ''FieldList''
            [OtherNode ''Field'' [Ident ''users'', OtherNode ''ArrayType'' [Ident ''User'']]]],
         OtherNode ''BlockStmt'' [loadPosts_loop]]]"

definition go_ParseFile :: "string \<Rightarrow> string \<Rightarrow> string + node" where
  "go_ParseFile filename src =
     (if src = hello_code then Inr hello_tree
      else if src = loadPosts_code then Inr loadPosts_tree
      else if src = invalid_code
        then Inl (filename @ '':1:1: expected '' @ [CHR 0x27] @ ''package'' @ [CHR 0x27] @ '', found this'')
      else if src = []
        then Inl (filename @ '':1:1: expected '' @ [CHR 0x27] @ ''package'' @ [CHR 0x27]
                    @ '', found '' @ [CHR 0x27] @ ''EOF'' @ [CHR 0x27])
      else Inl [])"

text \<open>
  \<open>go_ParseFile\<close> is the parser on these four texts only; nothing below applies it to
  another text.
\<close>

section \<open>Basic facts\<close>

text \<open>\<open>Contains\<close> is the substring test.\<close>

lemma Contains_sublist: "Contains s substr \<longleftrightarrow> sublist substr s"
  by (induction s) (simp_all add: sublist_Cons_right)

lemma elems_append1 [simp]: "elems (append1 s x) = elems s @ [x]"
  by (simp add: append1_def)

lemma elems_append_all [simp]: "elems (append_all s t) = elems s @ elems t"
  by (simp add: append_all_def)

lemma detectSecurityIssues_elems:
  "elems (detectSecurityIssues node code) =
     (if \<not> Contains code ''cors'' \<and> \<not> Contains code ''CORS'' then [missing_cors_issue] else [])
     @ (if Contains code ''BindJSON'' \<and> \<not> Contains code ''StatusBadRequest''
        then [insufficient_error_handling_issue] else [])
     @ (if Contains code ''password'' \<or> Contains code ''secret'' \<or> Contains code ''token''
        then [hardcoded_secrets_issue] else [])
     @ (if list_ex (Contains code) dml_keywords
           \<and> \<not> Contains code ''Prepare'' \<and> \<not> Contains code ''?''
        then [sql_injection_issue] else [])"
  by (simp add: detectSecurityIssues_def Let_def dml_keywords_def)

lemma suggestBestPractices_elems:
  "elems (suggestBestPractices node code) =
     error_handling_practice
     # (if \<not> Contains code ''middleware'' then [request_validation_practice] else [])
     @ (if \<not> Contains code ''Logger'' then [logging_practice] else [])
     @ (if Contains code (''Run('' @ [CHR 0x22] @ ''localhost:8080'' @ [CHR 0x22] @ '')'')
        then [configuration_practice] else [])"
  by (simp add: suggestBestPractices_def Let_def)

lemma generateAIRecommendations_elems:
  "elems (generateAIRecommendations code codeType) =
     (if Contains code ''func get'' \<and> Contains code ''func post''
      then [architecture_recommendation] else [])
     @ (if \<not> Contains code ''Recovery()'' then [middleware_recommendation] else [])
     @ (if \<not> Contains code ''/v1/'' \<and> \<not> Contains code ''/api/v''
        then [api_design_recommendation] else [])
     @ (if \<not> Contains code ''_test.go'' then [testing_recommendation] else [])"
  by (simp add: generateAIRecommendations_def Let_def)

lemma wherePatterns_loop_elems:
  "elems (wherePatterns_loop patterns code hints) =
     elems hints @ (if list_ex (Contains code) patterns then [missing_index_hint] else [])"
  by (induction patterns) simp_all

lemma expensiveOperations_loop_elems:
  "elems (expensiveOperations_loop ops code hints) =
     elems hints @ (if list_ex (Contains code) ops
                       \<and> \<not> Contains code ''cache'' \<and> \<not> Contains code ''Cache''
                    then [caching_hint] else [])"
  by (induction ops) simp_all

lemma AnalyzeCode_failed:
  "ParseFile filePath code = Inl err \<Longrightarrow>
   AnalyzeCode ParseFile now code codeType filePath =
     \<lparr>SecurityIssues = Slice [syntax_error_issue err],
      PerformanceHints = Slice [],
      BestPractices = Slice [],
      AIRecommendations = Slice [],
      AnalysisTime = now,
      CodeComplexity = 0,
      PerformanceScore = 0,
      PerformanceGrade = [],
      FilePath = filePath\<rparr>"
  by (simp add: AnalyzeCode_def append1_def)

lemma AnalyzeCode_parsed:
  "ParseFile filePath code = Inr node \<Longrightarrow>
   AnalyzeCode ParseFile now code codeType filePath =
     \<lparr>SecurityIssues = detectSecurityIssues node code,
      PerformanceHints = detectPerformanceIssues node code,
      BestPractices = suggestBestPractices node code,
      AIRecommendations = generateAIRecommendations code codeType,
      AnalysisTime = now,
      CodeComplexity = calculateComplexity node,
      PerformanceScore = fst (calculatePerformanceScore (detectPerformanceIssues node code)),
      PerformanceGrade = snd (calculatePerformanceScore (detectPerformanceIssues node code)),
      FilePath = filePath\<rparr>"
  by (simp add: AnalyzeCode_def Let_def split: prod.split)

lemma go_ParseFile_hello: "go_ParseFile filePath hello_code = Inr hello_tree"
  by (simp add: go_ParseFile_def)

lemma go_ParseFile_loadPosts: "go_ParseFile filePath loadPosts_code = Inr loadPosts_tree"
  by (simp add: go_ParseFile_def hello_code_def loadPosts_code_def)

lemma go_ParseFile_invalid:
  "go_ParseFile filePath invalid_code =
     Inl (filePath @ '':1:1: expected '' @ [CHR 0x27] @ ''package'' @ [CHR 0x27] @ '', found this'')"
  by (simp add: go_ParseFile_def hello_code_def loadPosts_code_def invalid_code_def)

lemma go_ParseFile_empty:
  "go_ParseFile filePath [] =
     Inl (filePath @ '':1:1: expected '' @ [CHR 0x27] @ ''package'' @ [CHR 0x27]
            @ '', found '' @ [CHR 0x27] @ ''EOF'' @ [CHR 0x27])"
  by (simp add: go_ParseFile_def hello_code_def loadPosts_code_def invalid_code_def)

lemma score_loop_total_weight: "score_loop hints score = score - total_weight hints"
  by (induction hints arbitrary: score) (simp_all add: total_weight_def severity_weight_def)

lemma calculatePerformanceScore_eq:
  "calculatePerformanceScore hints =
     (max 0 (100 - total_weight (elems hints)),
      grade_band (max 0 (100 - total_weight (elems hints))))"
  by (simp add: calculatePerformanceScore_def score_loop_total_weight grade_band_def Let_def max_def)

lemma severity_weight_nonneg: "0 \<le> severity_weight s"
  by (simp add: severity_weight_def)

lemma total_weight_nonneg: "0 \<le> total_weight hints"
  by (induction hints) (simp_all add: total_weight_def severity_weight_def)

lemma total_weight_append [simp]: "total_weight (xs @ ys) = total_weight xs + total_weight ys"
  by (simp add: total_weight_def)

lemma total_weight_critical:
  "h \<in> set hints \<Longrightarrow> PerformanceHint.Severity h = ''critical'' \<Longrightarrow> 25 \<le> total_weight hints"
proof (induction hints)
  case Nil
  then show ?case by simp
next
  case (Cons x xs)
  have "0 \<le> severity_weight (PerformanceHint.Severity x)" by (rule severity_weight_nonneg)
  moreover have "0 \<le> total_weight xs" by (rule total_weight_nonneg)
  ultimately show ?case
    using Cons by (auto simp: total_weight_def severity_weight_def)
qed

lemma grade_band_in_grades: "grade_band score \<in> set grades"
  by (simp add: grade_band_def grades_def)

section \<open>The traversal\<close>

text \<open>
  A closure that always returns true and ignores \<open>nil\<close> sees every node of the tree
  once, the root first.
\<close>

lemma Inspect_visits_all:
  fixes f :: "node option \<Rightarrow> 's \<Rightarrow> bool \<times> 's"
  shows "(\<And>n s. fst (f (Some n) s)) \<Longrightarrow> (\<And>s. snd (f None s) = s) \<Longrightarrow>
           Inspect n f s = fold (\<lambda>m s. snd (f (Some m) s)) (nodes n) s"
    and "(\<And>n s. fst (f (Some n) s)) \<Longrightarrow> (\<And>s. snd (f None s) = s) \<Longrightarrow>
           walkList ns f s = fold (\<lambda>m s. snd (f (Some m) s)) (concat (map nodes ns)) s"
proof (induction n f s and ns f s rule: Inspect_walkList.induct)
  case (1 n f s)
  obtain b s' where fs: "f (Some n) s = (b, s')" by (cases "f (Some n) s")
  have b: "b" using "1.prems"(1) [of n s] fs by simp
  have "walkList (children n) f s' =
          fold (\<lambda>m s. snd (f (Some m) s)) (concat (map nodes (children n))) s'"
    using "1.IH" [of b s'] fs b "1.prems" by simp
  then show ?case
    using fs b "1.prems"(2) by (simp add: Inspect.simps [of n] nodes.simps [of n])
next
  case (2 f s)
  show ?case by simp
next
  case (3 c cs f s)
  then show ?case by simp
qed

lemma method_loop_iff: "method_loop ms name \<longleftrightarrow> name \<in> set ms"
  by (induction ms) auto

lemma hasDBCall_closure_Some:
  "hasDBCall_closure (Some n) b = (\<not> is_data_access_call n, b \<or> is_data_access_call n)"
  by (simp add: hasDBCall_closure_def isDBCall_def is_data_access_call_def method_loop_iff
           split: node.splits)

lemma hasDBCall_closure_None: "hasDBCall_closure None b = (True, b)"
  by (simp add: hasDBCall_closure_def)

text \<open>
  The inner traversal stops descending at the first data-access call of a branch, yet
  it finds one exactly when the subtree has one.
\<close>

lemma Inspect_hasDBCall:
  shows "Inspect n hasDBCall_closure b \<longleftrightarrow> b \<or> list_ex is_data_access_call (nodes n)"
    and "walkList ns hasDBCall_closure b
           \<longleftrightarrow> b \<or> list_ex is_data_access_call (concat (map nodes ns))"
proof (induction n "hasDBCall_closure" b and ns "hasDBCall_closure" b
       rule: Inspect_walkList.induct)
  case (1 n b)
  show ?case
  proof (cases "is_data_access_call n")
    case True
    then show ?thesis
      by (simp add: Inspect.simps [of n] nodes.simps [of n] hasDBCall_closure_Some)
  next
    case False
    then have "walkList (children n) hasDBCall_closure b
                 \<longleftrightarrow> b \<or> list_ex is_data_access_call (concat (map nodes (children n)))"
      using 1 [of True b] by (simp add: hasDBCall_closure_Some)
    with False show ?thesis
      by (simp add: Inspect.simps [of n] nodes.simps [of n] hasDBCall_closure_Some
            hasDBCall_closure_None)
  qed
next
  case (2 b)
  show ?case by simp
next
  case (3 c cs b)
  then show ?case by auto
qed

lemma Inspect_hasDBCall_False:
  "Inspect n hasDBCall_closure False = contains_data_access n"
  by (simp add: Inspect_hasDBCall contains_data_access_def)

lemma forStmt_closure_Some:
  "forStmt_closure (Some n) hints
     = (True, append_all hints (Slice (map forStmt_hint (for_hits n))))"
  by (simp add: forStmt_closure_def for_hits_def Inspect_hasDBCall_False append_all_def
        append1_def split: node.splits)

lemma forStmt_closure_None: "forStmt_closure None hints = (True, hints)"
  by (simp add: forStmt_closure_def)

lemma rangeStmt_closure_Some:
  "rangeStmt_closure (Some n) hints
     = (True, append_all hints (Slice (map rangeStmt_hint (range_hits n))))"
  by (simp add: rangeStmt_closure_def range_hits_def Inspect_hasDBCall_False append_all_def
        append1_def split: node.splits)

lemma rangeStmt_closure_None: "rangeStmt_closure None hints = (True, hints)"
  by (simp add: rangeStmt_closure_def)

lemma fold_append_all:
  "fold (\<lambda>m s. append_all s (Slice (g m))) ms hints
     = append_all hints (Slice (concat (map g ms)))"
  by (induction ms arbitrary: hints) (simp_all add: append_all_def)

lemma Inspect_forStmt_closure:
  "Inspect node forStmt_closure hints
     = append_all hints (Slice (map forStmt_hint (for_loop_lines node)))"
proof -
  have "Inspect node forStmt_closure hints
          = fold (\<lambda>m s. snd (forStmt_closure (Some m) s)) (nodes node) hints"
    by (rule Inspect_visits_all) (simp_all add: forStmt_closure_Some forStmt_closure_None)
  also have "\<dots> = fold (\<lambda>m s. append_all s (Slice (map forStmt_hint (for_hits m))))
                      (nodes node) hints"
    by (simp add: forStmt_closure_Some)
  also have "\<dots> = append_all hints
                       (Slice (concat (map (\<lambda>m. map forStmt_hint (for_hits m)) (nodes node))))"
    by (rule fold_append_all)
  also have "concat (map (\<lambda>m. map forStmt_hint (for_hits m)) (nodes node))
               = map forStmt_hint (for_loop_lines node)"
    by (simp add: for_loop_lines_def map_concat comp_def)
  finally show ?thesis .
qed

lemma Inspect_rangeStmt_closure:
  "Inspect node rangeStmt_closure hints
     = append_all hints (Slice (map rangeStmt_hint (range_loop_lines node)))"
proof -
  have "Inspect node rangeStmt_closure hints
          = fold (\<lambda>m s. snd (rangeStmt_closure (Some m) s)) (nodes node) hints"
    by (rule Inspect_visits_all) (simp_all add: rangeStmt_closure_Some rangeStmt_closure_None)
  also have "\<dots> = fold (\<lambda>m s. append_all s (Slice (map rangeStmt_hint (range_hits m))))
                      (nodes node) hints"
    by (simp add: rangeStmt_closure_Some)
  also have "\<dots> = append_all hints
                       (Slice (concat (map (\<lambda>m. map rangeStmt_hint (range_hits m)) (nodes node))))"
    by (rule fold_append_all)
  also have "concat (map (\<lambda>m. map rangeStmt_hint (range_hits m)) (nodes node))
               = map rangeStmt_hint (range_loop_lines node)"
    by (simp add: range_loop_lines_def map_concat comp_def)
  finally show ?thesis .
qed

section \<open>What the detectors return\<close>

lemma detectN1QueryPatterns_elems:
  "elems (detectN1QueryPatterns node code) =
     map forStmt_hint (for_loop_lines node) @ map rangeStmt_hint (range_loop_lines node)
     @ (if Contains code ''for'' \<and> Contains code ''.Related('' then [related_hint] else [])"
  by (simp add: detectN1QueryPatterns_def Let_def Inspect_forStmt_closure Inspect_rangeStmt_closure)

lemma detectPerformanceIssues_elems:
  "elems (detectPerformanceIssues node code) =
     map forStmt_hint (for_loop_lines node) @ map rangeStmt_hint (range_loop_lines node)
     @ text_rule_hints code"
  by (simp add: detectPerformanceIssues_def Let_def detectN1QueryPatterns_elems
        detectMissingIndexes_def wherePatterns_loop_elems detectLargePayloadIssues_def
        detectMissingCaching_def expensiveOperations_loop_elems text_rule_hints_def)

lemma text_rule_hints_Issue:
  "h \<in> set (text_rule_hints code) \<Longrightarrow>
     Issue h \<noteq> ''Potential N+1 Query Pattern'' \<and> Issue h \<noteq> ''N+1 Query in Range Loop''"
  by (auto simp: text_rule_hints_def related_hint_def missing_index_hint_def pagination_hint_def
        caching_hint_def in_memory_hint_def pooling_hint_def split: if_splits)

lemma text_rule_hints_Severity:
  "h \<in> set (text_rule_hints code) \<Longrightarrow>
     PerformanceHint.Severity h \<in> {''critical'', ''high'', ''medium''}"
  by (auto simp: text_rule_hints_def related_hint_def missing_index_hint_def pagination_hint_def
        caching_hint_def in_memory_hint_def pooling_hint_def split: if_splits)

lemma for_loop_lines_iff:
  "line \<in> set (for_loop_lines tree) \<longleftrightarrow>
     (\<exists>ns. ForStmt line ns \<in> set (nodes tree) \<and> contains_data_access (ForStmt line ns))"
  by (auto simp: for_loop_lines_def for_hits_def split: node.splits if_splits)

lemma range_loop_lines_iff:
  "line \<in> set (range_loop_lines tree) \<longleftrightarrow>
     (\<exists>ns. RangeStmt line ns \<in> set (nodes tree) \<and> contains_data_access (RangeStmt line ns))"
  by (auto simp: range_loop_lines_def range_hits_def split: node.splits if_splits)

section \<open>The example files, analysed\<close>

lemma hello_security: "detectSecurityIssues hello_tree hello_code = Slice [missing_cors_issue]"
  by (simp add: detectSecurityIssues_def hello_code_def append1_def Let_def)

lemma hello_loops: "for_loop_lines hello_tree = [] \<and> range_loop_lines hello_tree = []"
  by (simp add: for_loop_lines_def range_loop_lines_def hello_tree_def nodes.simps
        for_hits_def range_hits_def)

lemma hello_performance: "detectPerformanceIssues hello_tree hello_code = nil"
  by (simp add: detectPerformanceIssues_def detectN1QueryPatterns_def
        Inspect_forStmt_closure Inspect_rangeStmt_closure hello_loops
        detectMissingIndexes_def detectLargePayloadIssues_def detectMissingCaching_def
        wherePatterns_def expensiveOperations_def hello_code_def append_all_def Let_def)

lemma hello_practices:
  "suggestBestPractices hello_tree hello_code
     = Slice [error_handling_practice, request_validation_practice, logging_practice]"
  by (simp add: suggestBestPractices_def hello_code_def append1_def Let_def)

lemma hello_recommendations:
  "generateAIRecommendations hello_code codeType
     = Slice [middleware_recommendation, api_design_recommendation, testing_recommendation]"
  by (simp add: generateAIRecommendations_def hello_code_def append1_def Let_def)

lemma hello_complexity: "calculateComplexity hello_tree = 0"
  by (simp add: calculateComplexity_def hello_tree_def Inspect.simps complexity_closure_def)

lemma hello_analysis:
  "AnalyzeCode go_ParseFile now hello_code codeType filePath =
     \<lparr>SecurityIssues = Slice [missing_cors_issue],
      PerformanceHints = nil,
      BestPractices = Slice [error_handling_practice, request_validation_practice, logging_practice],
      AIRecommendations =
        Slice [middleware_recommendation, api_design_recommendation, testing_recommendation],
      AnalysisTime = now,
      CodeComplexity = 0,
      PerformanceScore = 100,
      PerformanceGrade = ''A+'',
      FilePath = filePath\<rparr>"
  by (simp add: AnalyzeCode_parsed [where ParseFile = go_ParseFile, OF go_ParseFile_hello]
        hello_security hello_performance hello_practices hello_recommendations hello_complexity
        calculatePerformanceScore_def)

lemma loadPosts_security:
  "detectSecurityIssues loadPosts_tree loadPosts_code = Slice [missing_cors_issue, sql_injection_issue]"
  by (simp add: detectSecurityIssues_def loadPosts_code_def append1_def Let_def)

lemma loadPosts_loops: "for_loop_lines loadPosts_tree = [] \<and> range_loop_lines loadPosts_tree = [4]"
  by (simp add: for_loop_lines_def range_loop_lines_def loadPosts_tree_def loadPosts_loop_def
        nodes.simps for_hits_def range_hits_def contains_data_access_def
        is_data_access_call_def dbMethods_def)

lemma loadPosts_performance:
  "detectPerformanceIssues loadPosts_tree loadPosts_code = Slice [rangeStmt_hint 4]"
  by (simp add: detectPerformanceIssues_def detectN1QueryPatterns_def
        Inspect_forStmt_closure Inspect_rangeStmt_closure loadPosts_loops
        detectMissingIndexes_def detectLargePayloadIssues_def detectMissingCaching_def
        wherePatterns_def expensiveOperations_def loadPosts_code_def append_all_def Let_def)

lemma loadPosts_complexity: "calculateComplexity loadPosts_tree = 1"
  by (simp add: calculateComplexity_def loadPosts_tree_def loadPosts_loop_def Inspect.simps
        complexity_closure_def)

lemma loadPosts_analysis:
  "AnalyzeCode go_ParseFile now loadPosts_code codeType filePath =
     \<lparr>SecurityIssues = Slice [missing_cors_issue, sql_injection_issue],
      PerformanceHints = Slice [rangeStmt_hint 4],
      BestPractices = suggestBestPractices loadPosts_tree loadPosts_code,
      AIRecommendations = generateAIRecommendations loadPosts_code codeType,
      AnalysisTime = now,
      CodeComplexity = 1,
      PerformanceScore = 75,
      PerformanceGrade = ''C'',
      FilePath = filePath\<rparr>"
  by (simp add: AnalyzeCode_parsed [where ParseFile = go_ParseFile, OF go_ParseFile_loadPosts]
        loadPosts_security loadPosts_performance loadPosts_complexity
        calculatePerformanceScore_def rangeStmt_hint_def)

section \<open>Score and grade\<close>

text \<open>
  Claim C1. For a text that parses, the score is 100 minus the sum of the weights of
  the performance findings (critical 25, high 15, medium 10, low 5), or 0 when that is
  negative, and the grade is the band of the score. Every finding the rules produce is
  critical, high or medium. The score and the grade depend on the performance findings
  alone: two analyses with the same performance findings have the same score and grade,
  whatever their security findings, advisories and recommendations are.
\<close>

theorem score_from_performance_findings:
  assumes "ParseFile filePath code = Inr node"
  shows "let r = AnalyzeCode ParseFile now code codeType filePath in
           PerformanceScore r = max 0 (100 - total_weight (elems (PerformanceHints r)))
           \<and> PerformanceGrade r = grade_band (PerformanceScore r)
           \<and> (\<forall>h \<in> set (elems (PerformanceHints r)).
                 PerformanceHint.Severity h \<in> {''critical'', ''high'', ''medium''})
           \<and> (\<forall>ParseFile' now' code' codeType' filePath' node'.
                 ParseFile' filePath' code' = Inr node'
                 \<and> PerformanceHints (AnalyzeCode ParseFile' now' code' codeType' filePath')
                     = PerformanceHints r
                 \<longrightarrow> PerformanceScore (AnalyzeCode ParseFile' now' code' codeType' filePath')
                       = PerformanceScore r
                     \<and> PerformanceGrade (AnalyzeCode ParseFile' now' code' codeType' filePath')
                       = PerformanceGrade r)"
proof -
  let ?r = "AnalyzeCode ParseFile now code codeType filePath"
  have hints: "PerformanceHints ?r = detectPerformanceIssues node code"
    and score: "PerformanceScore ?r = fst (calculatePerformanceScore (PerformanceHints ?r))"
    and grade: "PerformanceGrade ?r = snd (calculatePerformanceScore (PerformanceHints ?r))"
    using assms by (simp_all add: AnalyzeCode_parsed)
  have formula: "PerformanceScore ?r = max 0 (100 - total_weight (elems (PerformanceHints ?r)))"
    by (simp add: score calculatePerformanceScore_eq)
  have band: "PerformanceGrade ?r = grade_band (PerformanceScore ?r)"
    by (simp add: score grade calculatePerformanceScore_eq)
  have sev: "\<forall>h \<in> set (elems (PerformanceHints ?r)).
               PerformanceHint.Severity h \<in> {''critical'', ''high'', ''medium''}"
    unfolding hints using text_rule_hints_Severity [of _ code]
    by (auto simp: detectPerformanceIssues_elems forStmt_hint_def rangeStmt_hint_def)
  have other: "PerformanceScore (AnalyzeCode ParseFile' now' code' codeType' filePath')
                 = PerformanceScore ?r
               \<and> PerformanceGrade (AnalyzeCode ParseFile' now' code' codeType' filePath')
                 = PerformanceGrade ?r"
    if "ParseFile' filePath' code' = Inr node'
        \<and> PerformanceHints (AnalyzeCode ParseFile' now' code' codeType' filePath')
            = PerformanceHints ?r"
    for ParseFile' :: "string \<Rightarrow> string \<Rightarrow> string + node"
      and now' code' codeType' filePath' node'
  proof -
    let ?r' = "AnalyzeCode ParseFile' now' code' codeType' filePath'"
    have "PerformanceScore ?r' = fst (calculatePerformanceScore (PerformanceHints ?r'))"
      and "PerformanceGrade ?r' = snd (calculatePerformanceScore (PerformanceHints ?r'))"
      using that by (simp_all add: AnalyzeCode_parsed)
    with that show ?thesis by (simp add: score grade)
  qed
  show ?thesis
    unfolding Let_def using formula band sev other by blast
qed

theorem score_from_performance_findings_witness:
  "go_ParseFile ''posts.go'' loadPosts_code = Inr loadPosts_tree
   \<and> PerformanceHints (AnalyzeCode go_ParseFile 0 loadPosts_code ''go'' ''posts.go'')
       = Slice [rangeStmt_hint 4]
   \<and> PerformanceHint.Severity (rangeStmt_hint 4) = ''critical''
   \<and> PerformanceScore (AnalyzeCode go_ParseFile 0 loadPosts_code ''go'' ''posts.go'') = 100 - 25
   \<and> PerformanceGrade (AnalyzeCode go_ParseFile 0 loadPosts_code ''go'' ''posts.go'')
       = grade_band 75"
  using score_from_performance_findings
          [where ParseFile = go_ParseFile and code = loadPosts_code and filePath = "''posts.go''"
             and now = 0 and codeType = "''go''", OF go_ParseFile_loadPosts]
  by (simp add: go_ParseFile_loadPosts loadPosts_analysis rangeStmt_hint_def grade_band_def)

text \<open>
  Claim C3, as amended. For every text the score lies between 0 and 100. When the text
  parses, the grade is one of \<open>A+\<close>, \<open>A\<close>, \<open>B\<close>, \<open>C\<close>, \<open>D\<close>, \<open>F\<close>, the band of
  the score. When it does not parse, the score is 0 and the grade is the empty string.
\<close>

theorem score_in_range_grade_when_parsed:
  "let r = AnalyzeCode ParseFile now code codeType filePath in
     0 \<le> PerformanceScore r \<and> PerformanceScore r \<le> 100
     \<and> (\<forall>node. ParseFile filePath code = Inr node \<longrightarrow>
           PerformanceGrade r \<in> set grades
           \<and> PerformanceGrade r = grade_band (PerformanceScore r))
     \<and> (\<forall>err. ParseFile filePath code = Inl err \<longrightarrow>
           PerformanceScore r = 0 \<and> PerformanceGrade r = [])"
proof (cases "ParseFile filePath code")
  case (Inl err)
  then show ?thesis by (simp add: AnalyzeCode_failed)
next
  case (Inr node)
  have "0 \<le> total_weight (elems (detectPerformanceIssues node code))"
    by (rule total_weight_nonneg)
  with Inr show ?thesis
    by (simp add: AnalyzeCode_parsed calculatePerformanceScore_eq grade_band_in_grades)
qed

theorem score_in_range_grade_when_parsed_witness:
  "PerformanceScore (AnalyzeCode go_ParseFile 0 loadPosts_code ''go'' ''posts.go'') = 75
   \<and> PerformanceGrade (AnalyzeCode go_ParseFile 0 loadPosts_code ''go'' ''posts.go'') = ''C''
   \<and> ''C'' \<in> set grades \<and> grade_band 75 = ''C''
   \<and> PerformanceScore (AnalyzeCode go_ParseFile 0 invalid_code ''go'' ''invalid.go'') = 0
   \<and> PerformanceGrade (AnalyzeCode go_ParseFile 0 invalid_code ''go'' ''invalid.go'') = []"
  using score_in_range_grade_when_parsed
          [of go_ParseFile 0 loadPosts_code "''go''" "''posts.go''"]
        score_in_range_grade_when_parsed
          [of go_ParseFile 0 invalid_code "''go''" "''invalid.go''"]
  by (simp add: go_ParseFile_loadPosts go_ParseFile_invalid loadPosts_analysis
        grade_band_def grades_def Let_def)

text \<open>
  The claim as first stated fails where the text does not parse: the grade is then the
  empty string, which is no grade and not the band of the score 0.
\<close>

theorem grade_of_unparsed_text_counterexample:
  "\<not> (PerformanceGrade (AnalyzeCode go_ParseFile 0 invalid_code ''go'' ''invalid.go'')
          \<in> set grades
        \<and> PerformanceGrade (AnalyzeCode go_ParseFile 0 invalid_code ''go'' ''invalid.go'')
          = grade_band
              (PerformanceScore (AnalyzeCode go_ParseFile 0 invalid_code ''go'' ''invalid.go'')))"
  by (simp add: AnalyzeCode_failed [where ParseFile = go_ParseFile, OF go_ParseFile_invalid]
        grades_def)

section \<open>The parse-failure path\<close>

text \<open>
  Claim C2, as amended. When the text does not parse, the result holds exactly one
  security finding, of type \<open>syntax_error\<close> and severity \<open>high\<close>; the performance,
  best-practice and recommendation slices are empty and not nil; the complexity is 0.
  The score and the grade are not computed and are not the values of a file without
  findings: they keep the zero values of the fresh result, the score 0 and the empty
  string, which is none of the grades, while the scoring step gives 100 and \<open>A+\<close> for
  the empty list of hints.
\<close>

theorem parse_failure_result:
  assumes "ParseFile filePath code = Inl err"
  shows "let r = AnalyzeCode ParseFile now code codeType filePath in
           SecurityIssues r = Slice [syntax_error_issue err]
           \<and> SecurityIssue.Type (syntax_error_issue err) = ''syntax_error''
           \<and> SecurityIssue.Severity (syntax_error_issue err) = ''high''
           \<and> PerformanceHints r = Slice [] \<and> PerformanceHints r \<noteq> nil
           \<and> BestPractices r = Slice [] \<and> BestPractices r \<noteq> nil
           \<and> AIRecommendations r = Slice [] \<and> AIRecommendations r \<noteq> nil
           \<and> CodeComplexity r = 0
           \<and> PerformanceScore r = 0
           \<and> PerformanceGrade r = []
           \<and> PerformanceGrade r \<notin> set grades
           \<and> calculatePerformanceScore (PerformanceHints r) = (100, ''A+'')"
  using assms
  by (simp add: AnalyzeCode_failed syntax_error_issue_def calculatePerformanceScore_def
        grades_def)

theorem parse_failure_result_witness:
  "let r = AnalyzeCode go_ParseFile 0 invalid_code ''go'' ''invalid.go'';
       err = ''invalid.go'' @ '':1:1: expected '' @ [CHR 0x27] @ ''package'' @ [CHR 0x27]
               @ '', found this'' in
     SecurityIssues r = Slice [syntax_error_issue err]
     \<and> SecurityIssue.Type (syntax_error_issue err) = ''syntax_error''
     \<and> SecurityIssue.Severity (syntax_error_issue err) = ''high''
     \<and> PerformanceHints r = Slice [] \<and> PerformanceHints r \<noteq> nil
     \<and> BestPractices r = Slice [] \<and> BestPractices r \<noteq> nil
     \<and> AIRecommendations r = Slice [] \<and> AIRecommendations r \<noteq> nil
     \<and> CodeComplexity r = 0
     \<and> PerformanceScore r = 0
     \<and> PerformanceGrade r = []
     \<and> PerformanceGrade r \<notin> set grades
     \<and> calculatePerformanceScore (PerformanceHints r) = (100, ''A+'')"
  using parse_failure_result
          [where ParseFile = go_ParseFile and code = invalid_code and filePath = "''invalid.go''"
             and now = 0 and codeType = "''go''", OF go_ParseFile_invalid]
  unfolding Let_def .

text \<open>
  The claim as first stated fails on the invalid text of the package's tests: a file
  without findings has score 100 and grade \<open>A+\<close>, and the result for the invalid text
  has neither, though its lists and its complexity are as the claim says.
\<close>

theorem unparsed_text_score_and_grade_counterexample:
  "\<not> (PerformanceHints (AnalyzeCode go_ParseFile 0 invalid_code ''go'' ''invalid.go'') = Slice []
        \<and> BestPractices (AnalyzeCode go_ParseFile 0 invalid_code ''go'' ''invalid.go'') = Slice []
        \<and> AIRecommendations (AnalyzeCode go_ParseFile 0 invalid_code ''go'' ''invalid.go'') = Slice []
        \<and> CodeComplexity (AnalyzeCode go_ParseFile 0 invalid_code ''go'' ''invalid.go'') = 0
        \<and> PerformanceScore (AnalyzeCode go_ParseFile 0 invalid_code ''go'' ''invalid.go'') = 100
        \<and> PerformanceGrade (AnalyzeCode go_ParseFile 0 invalid_code ''go'' ''invalid.go'') = ''A+'')"
  by (simp add: AnalyzeCode_failed [where ParseFile = go_ParseFile, OF go_ParseFile_invalid])

section \<open>Advisories\<close>

text \<open>
  Claim C10. Whenever the text parses, the best-practice list is not empty: it starts
  with the "Error Handling" entry, whatever the text is. The list is empty exactly when
  the text does not parse.
\<close>

theorem best_practices_nonempty_iff_parsed:
  "let r = AnalyzeCode ParseFile now code codeType filePath in
     (\<forall>node. ParseFile filePath code = Inr node \<longrightarrow>
        (\<exists>rest. BestPractices r = Slice (error_handling_practice # rest))
        \<and> Category error_handling_practice = ''Error Handling'')
     \<and> (elems (BestPractices r) = [] \<longleftrightarrow> (\<exists>err. ParseFile filePath code = Inl err))"
proof (cases "ParseFile filePath code")
  case (Inl err)
  then show ?thesis by (simp add: AnalyzeCode_failed)
next
  case (Inr node)
  have "\<exists>rest. suggestBestPractices node code = Slice (error_handling_practice # rest)"
    by (simp add: suggestBestPractices_def Let_def append1_def)
  then obtain rest where "suggestBestPractices node code = Slice (error_handling_practice # rest)"
    by blast
  with Inr show ?thesis by (simp add: AnalyzeCode_parsed error_handling_practice_def)
qed

theorem best_practices_nonempty_iff_parsed_witness:
  "BestPractices (AnalyzeCode go_ParseFile 0 hello_code ''go'' ''main.go'')
     = Slice [error_handling_practice, request_validation_practice, logging_practice]
   \<and> elems (BestPractices (AnalyzeCode go_ParseFile 0 hello_code ''go'' ''main.go'')) \<noteq> []
   \<and> elems (BestPractices (AnalyzeCode go_ParseFile 0 invalid_code ''go'' ''invalid.go'')) = []"
  using best_practices_nonempty_iff_parsed [of go_ParseFile 0 hello_code "''go''" "''main.go''"]
        best_practices_nonempty_iff_parsed [of go_ParseFile 0 invalid_code "''go''" "''invalid.go''"]
  by (simp add: go_ParseFile_hello go_ParseFile_invalid hello_analysis Let_def)

section \<open>Determinism\<close>

text \<open>
  Claim C6. Two runs on the same text, dialect and path, at whatever instants, return
  the same security findings, performance findings, advisories, recommendations,
  complexity, score, grade and path: the second result is the first with its own
  timestamp.
\<close>

theorem analysis_is_function_of_input:
  "let r1 = AnalyzeCode ParseFile now1 code codeType filePath;
       r2 = AnalyzeCode ParseFile now2 code codeType filePath in
     SecurityIssues r1 = SecurityIssues r2
     \<and> PerformanceHints r1 = PerformanceHints r2
     \<and> BestPractices r1 = BestPractices r2
     \<and> AIRecommendations r1 = AIRecommendations r2
     \<and> CodeComplexity r1 = CodeComplexity r2
     \<and> PerformanceScore r1 = PerformanceScore r2
     \<and> PerformanceGrade r1 = PerformanceGrade r2
     \<and> FilePath r1 = FilePath r2
     \<and> AnalysisTime r1 = now1 \<and> AnalysisTime r2 = now2
     \<and> r2 = r1\<lparr>AnalysisTime := now2\<rparr>"
  by (cases "ParseFile filePath code") (simp_all add: AnalyzeCode_failed AnalyzeCode_parsed)

theorem analysis_is_function_of_input_witness:
  "AnalyzeCode go_ParseFile 1762041600 loadPosts_code ''go'' ''posts.go''
     = (AnalyzeCode go_ParseFile 0 loadPosts_code ''go'' ''posts.go'')
         \<lparr>AnalysisTime := 1762041600\<rparr>
   \<and> PerformanceHints (AnalyzeCode go_ParseFile 1762041600 loadPosts_code ''go'' ''posts.go'')
       = Slice [rangeStmt_hint 4]"
  using analysis_is_function_of_input
          [of go_ParseFile 0 loadPosts_code "''go''" "''posts.go''" 1762041600]
  by (simp add: loadPosts_analysis Let_def)

text \<open>
  Claim C9. The dialect hint \<open>codeType\<close> is read by no rule: for any two hints, known
  or not, the results are equal but for the timestamp, and equal when the clock reads the
  same. The model has no failing branch because the source has none: \<open>AnalyzeCode\<close>
  returns a result on both outcomes of the parser and no rule indexes, dereferences or
  asserts a type that could panic.
\<close>

theorem dialect_hint_unused:
  "let r1 = AnalyzeCode ParseFile now1 code codeType1 filePath;
       r2 = AnalyzeCode ParseFile now2 code codeType2 filePath in
     r2 = r1\<lparr>AnalysisTime := now2\<rparr>
     \<and> generateAIRecommendations code codeType1 = generateAIRecommendations code codeType2
     \<and> AnalyzeCode ParseFile now1 code codeType2 filePath = r1"
  by (cases "ParseFile filePath code")
     (simp_all add: AnalyzeCode_failed AnalyzeCode_parsed generateAIRecommendations_def)

theorem dialect_hint_unused_witness:
  "AnalyzeCode go_ParseFile 0 hello_code ''cobol'' ''main.go''
     = AnalyzeCode go_ParseFile 0 hello_code ''go'' ''main.go''
   \<and> AnalyzeCode go_ParseFile 0 invalid_code [] ''invalid.go''
     = AnalyzeCode go_ParseFile 0 invalid_code ''go'' ''invalid.go''"
proof -
  have "AnalyzeCode go_ParseFile 0 hello_code ''cobol'' ''main.go''
          = AnalyzeCode go_ParseFile 0 hello_code ''go'' ''main.go''"
    using dialect_hint_unused [of go_ParseFile 0 hello_code "''go''" "''main.go''" 0 "''cobol''"]
    unfolding Let_def by blast
  moreover have "AnalyzeCode go_ParseFile 0 invalid_code [] ''invalid.go''
                   = AnalyzeCode go_ParseFile 0 invalid_code ''go'' ''invalid.go''"
    using dialect_hint_unused [of go_ParseFile 0 invalid_code "''go''" "''invalid.go''" 0 "[]"]
    unfolding Let_def by blast
  ultimately show ?thesis by blast
qed

section \<open>The SQL rule\<close>

text \<open>
  Claim C8. For a text that parses, a security finding of type \<open>sql_injection_risk\<close>
  and severity \<open>high\<close> is reported if and only if the text contains one of
  \<open>SELECT\<close>, \<open>INSERT\<close>, \<open>UPDATE\<close>, \<open>DELETE\<close> and contains neither \<open>Prepare\<close>
  nor \<open>?\<close>; it is then reported once.
\<close>

theorem sql_injection_risk_iff:
  assumes "ParseFile filePath code = Inr node"
  shows "let issues = elems (SecurityIssues (AnalyzeCode ParseFile now code codeType filePath));
             risky = ((Contains code ''SELECT'' \<or> Contains code ''INSERT''
                        \<or> Contains code ''UPDATE'' \<or> Contains code ''DELETE'')
                      \<and> \<not> Contains code ''Prepare'' \<and> \<not> Contains code ''?'') in
           ((\<exists>i \<in> set issues. SecurityIssue.Type i = ''sql_injection_risk''
                                \<and> SecurityIssue.Severity i = ''high'') \<longleftrightarrow> risky)
           \<and> ((\<exists>i \<in> set issues. SecurityIssue.Type i = ''sql_injection_risk'') \<longleftrightarrow> risky)
           \<and> filter (\<lambda>i. SecurityIssue.Type i = ''sql_injection_risk'') issues
               = (if risky then [sql_injection_issue] else [])"
proof -
  let ?issues = "elems (SecurityIssues (AnalyzeCode ParseFile now code codeType filePath))"
  let ?risky = "(Contains code ''SELECT'' \<or> Contains code ''INSERT''
                   \<or> Contains code ''UPDATE'' \<or> Contains code ''DELETE'')
                \<and> \<not> Contains code ''Prepare'' \<and> \<not> Contains code ''?''"
  have f: "filter (\<lambda>i. SecurityIssue.Type i = ''sql_injection_risk'') ?issues
             = (if ?risky then [sql_injection_issue] else [])"
    using assms
    by (simp add: AnalyzeCode_parsed detectSecurityIssues_elems dml_keywords_def
          missing_cors_issue_def insufficient_error_handling_issue_def
          hardcoded_secrets_issue_def sql_injection_issue_def)
  have e1: "(\<exists>i \<in> set ?issues. SecurityIssue.Type i = ''sql_injection_risk'') \<longleftrightarrow> ?risky"
  proof -
    have "(\<exists>i \<in> set ?issues. SecurityIssue.Type i = ''sql_injection_risk'')
            \<longleftrightarrow> filter (\<lambda>i. SecurityIssue.Type i = ''sql_injection_risk'') ?issues \<noteq> []"
      by (simp add: filter_empty_conv)
    then show ?thesis by (simp add: f)
  qed
  have e2: "(\<exists>i \<in> set ?issues. SecurityIssue.Type i = ''sql_injection_risk''
                                  \<and> SecurityIssue.Severity i = ''high'') \<longleftrightarrow> ?risky"
  proof
    assume "\<exists>i \<in> set ?issues. SecurityIssue.Type i = ''sql_injection_risk''
                               \<and> SecurityIssue.Severity i = ''high''"
    then have "\<exists>i \<in> set ?issues. SecurityIssue.Type i = ''sql_injection_risk''" by blast
    with e1 show ?risky by blast
  next
    assume r: ?risky
    then have "filter (\<lambda>i. SecurityIssue.Type i = ''sql_injection_risk'') ?issues
                 = [sql_injection_issue]"
      using f by simp
    then have "sql_injection_issue
                 \<in> set (filter (\<lambda>i. SecurityIssue.Type i = ''sql_injection_risk'') ?issues)"
      by simp
    then have "sql_injection_issue \<in> set ?issues" by simp
    moreover have "SecurityIssue.Type sql_injection_issue = ''sql_injection_risk''
                   \<and> SecurityIssue.Severity sql_injection_issue = ''high''"
      by (simp add: sql_injection_issue_def)
    ultimately show "\<exists>i \<in> set ?issues. SecurityIssue.Type i = ''sql_injection_risk''
                                     \<and> SecurityIssue.Severity i = ''high''"
      by blast
  qed
  show ?thesis
    unfolding Let_def using e1 e2 f by blast
qed

theorem sql_injection_risk_iff_witness:
  "Contains loadPosts_code ''SELECT''
   \<and> \<not> Contains loadPosts_code ''Prepare'' \<and> \<not> Contains loadPosts_code ''?''
   \<and> filter (\<lambda>i. SecurityIssue.Type i = ''sql_injection_risk'')
         (elems (SecurityIssues (AnalyzeCode go_ParseFile 0 loadPosts_code ''go'' ''posts.go'')))
       = [sql_injection_issue]"
proof -
  have c: "Contains loadPosts_code ''SELECT''
           \<and> \<not> Contains loadPosts_code ''Prepare'' \<and> \<not> Contains loadPosts_code ''?''"
    by (simp add: loadPosts_code_def)
  have "filter (\<lambda>i. SecurityIssue.Type i = ''sql_injection_risk'')
          (elems (SecurityIssues (AnalyzeCode go_ParseFile 0 loadPosts_code ''go'' ''posts.go'')))
        = (if (Contains loadPosts_code ''SELECT'' \<or> Contains loadPosts_code ''INSERT''
                 \<or> Contains loadPosts_code ''UPDATE'' \<or> Contains loadPosts_code ''DELETE'')
               \<and> \<not> Contains loadPosts_code ''Prepare'' \<and> \<not> Contains loadPosts_code ''?''
           then [sql_injection_issue] else [])"
    using sql_injection_risk_iff
            [where ParseFile = go_ParseFile and code = loadPosts_code
               and filePath = "''posts.go''" and now = 0 and codeType = "''go''",
             OF go_ParseFile_loadPosts]
    unfolding Let_def by blast
  with c show ?thesis by simp
qed

section \<open>Queries in loops\<close>

text \<open>
  Claim C7. For a text that parses, the performance findings named
  "Potential N+1 Query Pattern" are exactly one for each counted loop of the tree that
  has a data-access call in its subtree, in the order of the traversal, and those named
  "N+1 Query in Range Loop" are exactly one for each such range loop. Each carries the
  line of its loop and severity \<open>critical\<close>, and the two names differ. When some range
  loop has a data-access call below it, a critical finding named
  "N+1 Query in Range Loop" is reported and the score is at most 75.
\<close>

theorem loops_with_data_access_reported:
  assumes "ParseFile filePath code = Inr node"
  shows "let r = AnalyzeCode ParseFile now code codeType filePath;
             hints = elems (PerformanceHints r) in
           filter (\<lambda>h. Issue h = ''Potential N+1 Query Pattern'') hints
             = map forStmt_hint (for_loop_lines node)
           \<and> filter (\<lambda>h. Issue h = ''N+1 Query in Range Loop'') hints
             = map rangeStmt_hint (range_loop_lines node)
           \<and> (\<forall>line. Issue (forStmt_hint line) = ''Potential N+1 Query Pattern''
                 \<and> PerformanceHint.Severity (forStmt_hint line) = ''critical''
                 \<and> PerformanceHint.LineNumber (forStmt_hint line) = line
                 \<and> Issue (rangeStmt_hint line) = ''N+1 Query in Range Loop''
                 \<and> PerformanceHint.Severity (rangeStmt_hint line) = ''critical''
                 \<and> PerformanceHint.LineNumber (rangeStmt_hint line) = line)
           \<and> (\<forall>line ns. RangeStmt line ns \<in> set (nodes node)
                 \<and> list_ex is_data_access_call (nodes (RangeStmt line ns))
                 \<longrightarrow> (\<exists>h \<in> set hints. Issue h = ''N+1 Query in Range Loop''
                        \<and> PerformanceHint.Severity h = ''critical''
                        \<and> PerformanceHint.LineNumber h = line)
                     \<and> PerformanceScore r \<le> 75)"
proof -
  let ?r = "AnalyzeCode ParseFile now code codeType filePath"
  let ?hints = "elems (PerformanceHints ?r)"
  have hints: "?hints = map forStmt_hint (for_loop_lines node)
                 @ map rangeStmt_hint (range_loop_lines node) @ text_rule_hints code"
    using assms by (simp add: AnalyzeCode_parsed detectPerformanceIssues_elems)
  have score: "PerformanceScore ?r = max 0 (100 - total_weight ?hints)"
    using assms by (simp add: AnalyzeCode_parsed calculatePerformanceScore_eq)
  have text_none: "filter (\<lambda>h. Issue h = ''Potential N+1 Query Pattern'') (text_rule_hints code) = []"
    "filter (\<lambda>h. Issue h = ''N+1 Query in Range Loop'') (text_rule_hints code) = []"
    using text_rule_hints_Issue [of _ code] by (auto simp: filter_empty_conv)
  have for_all: "filter (\<lambda>h. Issue h = ''Potential N+1 Query Pattern'') (map forStmt_hint ls)
                   = map forStmt_hint ls"
    and for_none: "filter (\<lambda>h. Issue h = ''N+1 Query in Range Loop'') (map forStmt_hint ls) = []"
    and range_all: "filter (\<lambda>h. Issue h = ''N+1 Query in Range Loop'') (map rangeStmt_hint ls)
                   = map rangeStmt_hint ls"
    and range_none: "filter (\<lambda>h. Issue h = ''Potential N+1 Query Pattern'') (map rangeStmt_hint ls) = []"
    for ls
    by (induction ls) (simp_all add: forStmt_hint_def rangeStmt_hint_def)
  have p1: "filter (\<lambda>h. Issue h = ''Potential N+1 Query Pattern'') ?hints
              = map forStmt_hint (for_loop_lines node)"
    by (simp add: hints text_none for_all range_none)
  have p2: "filter (\<lambda>h. Issue h = ''N+1 Query in Range Loop'') ?hints
              = map rangeStmt_hint (range_loop_lines node)"
    by (simp add: hints text_none for_none range_all)
  have p3: "Issue (forStmt_hint line) = ''Potential N+1 Query Pattern''
            \<and> PerformanceHint.Severity (forStmt_hint line) = ''critical''
            \<and> PerformanceHint.LineNumber (forStmt_hint line) = line
            \<and> Issue (rangeStmt_hint line) = ''N+1 Query in Range Loop''
            \<and> PerformanceHint.Severity (rangeStmt_hint line) = ''critical''
            \<and> PerformanceHint.LineNumber (rangeStmt_hint line) = line" for line
    by (simp add: forStmt_hint_def rangeStmt_hint_def)
  have p4: "(\<exists>h \<in> set ?hints. Issue h = ''N+1 Query in Range Loop''
                \<and> PerformanceHint.Severity h = ''critical''
                \<and> PerformanceHint.LineNumber h = line)
            \<and> PerformanceScore ?r \<le> 75"
    if "RangeStmt line ns \<in> set (nodes node)
        \<and> list_ex is_data_access_call (nodes (RangeStmt line ns))" for line ns
  proof -
    from that have "line \<in> set (range_loop_lines node)"
      by (auto simp: range_loop_lines_iff contains_data_access_def)
    then have mem: "rangeStmt_hint line \<in> set ?hints"
      by (simp add: hints)
    then have "25 \<le> total_weight ?hints"
      by (rule total_weight_critical) (simp add: rangeStmt_hint_def)
    then have "PerformanceScore ?r \<le> 75"
      by (simp add: score)
    with mem p3 [of line] show ?thesis by blast
  qed
  show ?thesis
    unfolding Let_def using p1 p2 p3 p4 by blast
qed

theorem loops_with_data_access_reported_witness:
  "RangeStmt 4 (children loadPosts_loop) \<in> set (nodes loadPosts_tree)
   \<and> list_ex is_data_access_call (nodes (RangeStmt 4 (children loadPosts_loop)))
   \<and> filter (\<lambda>h. Issue h = ''N+1 Query in Range Loop'')
         (elems (PerformanceHints (AnalyzeCode go_ParseFile 0 loadPosts_code ''go'' ''posts.go'')))
       = [rangeStmt_hint 4]
   \<and> filter (\<lambda>h. Issue h = ''Potential N+1 Query Pattern'')
         (elems (PerformanceHints (AnalyzeCode go_ParseFile 0 loadPosts_code ''go'' ''posts.go'')))
       = []
   \<and> PerformanceScore (AnalyzeCode go_ParseFile 0 loadPosts_code ''go'' ''posts.go'') \<le> 75"
proof -
  have loop: "RangeStmt 4 (children loadPosts_loop) \<in> set (nodes loadPosts_tree)
              \<and> list_ex is_data_access_call (nodes (RangeStmt 4 (children loadPosts_loop)))"
    by (simp add: loadPosts_tree_def loadPosts_loop_def nodes.simps is_data_access_call_def
          dbMethods_def)
  note inst = loops_with_data_access_reported
          [where ParseFile = go_ParseFile and code = loadPosts_code and filePath = "''posts.go''"
             and now = 0 and codeType = "''go''", OF go_ParseFile_loadPosts, unfolded Let_def]
  from inst loop
  have "PerformanceScore (AnalyzeCode go_ParseFile 0 loadPosts_code ''go'' ''posts.go'') \<le> 75"
    by blast
  moreover from inst
  have "filter (\<lambda>h. Issue h = ''N+1 Query in Range Loop'')
          (elems (PerformanceHints (AnalyzeCode go_ParseFile 0 loadPosts_code ''go'' ''posts.go'')))
        = map rangeStmt_hint (range_loop_lines loadPosts_tree)"
    and "filter (\<lambda>h. Issue h = ''Potential N+1 Query Pattern'')
          (elems (PerformanceHints (AnalyzeCode go_ParseFile 0 loadPosts_code ''go'' ''posts.go'')))
        = map forStmt_hint (for_loop_lines loadPosts_tree)"
    by blast+
  ultimately show ?thesis
    using loop by (simp add: loadPosts_loops)
qed

section \<open>Texts without findings to score\<close>

lemma no_loops_no_lines:
  assumes "\<not> list_ex is_loop (nodes tree)"
  shows "for_loop_lines tree = []" and "range_loop_lines tree = []"
  using assms
  by (auto simp: for_loop_lines_def range_loop_lines_def for_hits_def range_hits_def
        is_loop_def list_ex_iff split: node.splits)

lemma no_flagged_no_text_hints:
  assumes "\<not> list_ex (Contains code) flagged_literals"
  shows "text_rule_hints code = []"
  using assms by (simp add: text_rule_hints_def flagged_literals_def)

text \<open>
  Claim C5, as amended. For a file that parses, has no loop, no DML keyword and none
  of the flagged literals (such as a main function that prints a greeting), there is no
  performance finding, the score is 100 and the grade \<open>A+\<close>. The other lists are not
  all empty: the security findings are the \<open>missing_cors\<close> finding alone when the text
  mentions neither \<open>cors\<close> nor \<open>CORS\<close> (and none otherwise), the best-practice list
  starts with the "Error Handling" entry, and the recommendations hold the
  \<open>middleware\<close> entry when the text lacks \<open>Recovery()\<close>.
\<close>

theorem plain_file_result:
  assumes "ParseFile filePath code = Inr node"
    and "\<not> list_ex is_loop (nodes node)"
    and "\<not> list_ex (Contains code) dml_keywords"
    and "\<not> list_ex (Contains code) flagged_literals"
  shows "let r = AnalyzeCode ParseFile now code codeType filePath in
           elems (PerformanceHints r) = []
           \<and> PerformanceScore r = 100
           \<and> PerformanceGrade r = ''A+''
           \<and> elems (SecurityIssues r)
               = (if \<not> Contains code ''cors'' \<and> \<not> Contains code ''CORS''
                  then [missing_cors_issue] else [])
           \<and> (\<exists>rest. elems (BestPractices r) = error_handling_practice # rest)
           \<and> (\<not> Contains code ''Recovery()''
                \<longrightarrow> middleware_recommendation \<in> set (elems (AIRecommendations r)))"
proof -
  let ?r = "AnalyzeCode ParseFile now code codeType filePath"
  have perf: "elems (detectPerformanceIssues node code) = []"
    using assms(2,4)
    by (simp add: detectPerformanceIssues_elems no_loops_no_lines no_flagged_no_text_hints)
  have sec: "elems (detectSecurityIssues node code)
               = (if \<not> Contains code ''cors'' \<and> \<not> Contains code ''CORS''
                  then [missing_cors_issue] else [])"
    using assms(3,4) by (simp add: detectSecurityIssues_elems flagged_literals_def)
  have score: "calculatePerformanceScore (detectPerformanceIssues node code) = (100, ''A+'')"
    by (simp add: calculatePerformanceScore_eq perf total_weight_def grade_band_def)
  show ?thesis
    using assms(1)
    by (simp add: AnalyzeCode_parsed perf sec score suggestBestPractices_elems
          generateAIRecommendations_elems)
qed

theorem plain_file_result_witness:
  "go_ParseFile ''main.go'' hello_code = Inr hello_tree
   \<and> \<not> list_ex is_loop (nodes hello_tree)
   \<and> \<not> list_ex (Contains hello_code) dml_keywords
   \<and> \<not> list_ex (Contains hello_code) flagged_literals
   \<and> \<not> Contains hello_code ''cors'' \<and> \<not> Contains hello_code ''CORS''
   \<and> \<not> Contains hello_code ''Recovery()''
   \<and> elems (PerformanceHints (AnalyzeCode go_ParseFile 0 hello_code ''go'' ''main.go'')) = []
   \<and> PerformanceScore (AnalyzeCode go_ParseFile 0 hello_code ''go'' ''main.go'') = 100
   \<and> PerformanceGrade (AnalyzeCode go_ParseFile 0 hello_code ''go'' ''main.go'') = ''A+''
   \<and> elems (SecurityIssues (AnalyzeCode go_ParseFile 0 hello_code ''go'' ''main.go''))
       = [missing_cors_issue]
   \<and> middleware_recommendation
       \<in> set (elems (AIRecommendations (AnalyzeCode go_ParseFile 0 hello_code ''go'' ''main.go'')))"
proof -
  have loops: "\<not> list_ex is_loop (nodes hello_tree)"
    by (simp add: hello_tree_def nodes.simps is_loop_def)
  have dml: "\<not> list_ex (Contains hello_code) dml_keywords"
    by (simp add: hello_code_def dml_keywords_def)
  have flagged: "\<not> list_ex (Contains hello_code) flagged_literals"
    by (simp add: hello_code_def flagged_literals_def wherePatterns_def expensiveOperations_def)
  have rest: "\<not> Contains hello_code ''cors'' \<and> \<not> Contains hello_code ''CORS''
              \<and> \<not> Contains hello_code ''Recovery()''"
    by (simp add: hello_code_def)
  note inst = plain_file_result
          [where ParseFile = go_ParseFile and code = hello_code and filePath = "''main.go''"
             and now = 0 and codeType = "''go''",
           OF go_ParseFile_hello loops dml flagged, unfolded Let_def]
  show ?thesis
    using inst loops dml flagged rest go_ParseFile_hello [of "''main.go''"] by simp
qed

text \<open>
  The claim as first stated fails on the greeting program of the package's tests: it
  has a security finding, three advisories and three recommendations.
\<close>

theorem plain_file_has_findings_counterexample:
  "\<not> (elems (SecurityIssues (AnalyzeCode go_ParseFile 0 hello_code ''go'' ''main.go'')) = []
        \<and> elems (PerformanceHints (AnalyzeCode go_ParseFile 0 hello_code ''go'' ''main.go'')) = []
        \<and> elems (BestPractices (AnalyzeCode go_ParseFile 0 hello_code ''go'' ''main.go'')) = []
        \<and> elems (AIRecommendations (AnalyzeCode go_ParseFile 0 hello_code ''go'' ''main.go'')) = []
        \<and> PerformanceScore (AnalyzeCode go_ParseFile 0 hello_code ''go'' ''main.go'') = 100)"
  by (simp add: hello_analysis)

section \<open>The empty text\<close>

text \<open>
  Claim C4, as amended. For the empty text, with any dialect hint and any path, the
  result has a security finding. The parser rejects the empty text, and the result is
  then that of a parse failure: the \<open>syntax_error\<close> finding of severity \<open>high\<close> and
  nothing else, complexity 0, score 0 and the empty grade. Were the empty text to parse,
  the text rules would still report \<open>missing_cors\<close>, three advisories and three
  recommendations.
\<close>

theorem empty_text_result:
  "let r = AnalyzeCode ParseFile now [] codeType filePath in
     (\<forall>err. ParseFile filePath [] = Inl err \<longrightarrow>
        SecurityIssues r = Slice [syntax_error_issue err]
        \<and> SecurityIssue.Type (syntax_error_issue err) = ''syntax_error''
        \<and> SecurityIssue.Severity (syntax_error_issue err) = ''high''
        \<and> PerformanceHints r = Slice []
        \<and> BestPractices r = Slice []
        \<and> AIRecommendations r = Slice []
        \<and> CodeComplexity r = 0
        \<and> PerformanceScore r = 0
        \<and> PerformanceGrade r = [])
     \<and> (\<forall>node. ParseFile filePath [] = Inr node \<longrightarrow>
        elems (SecurityIssues r) = [missing_cors_issue]
        \<and> elems (BestPractices r)
            = [error_handling_practice, request_validation_practice, logging_practice]
        \<and> elems (AIRecommendations r)
            = [middleware_recommendation, api_design_recommendation, testing_recommendation])
     \<and> elems (SecurityIssues r) \<noteq> []"
proof (cases "ParseFile filePath []")
  case (Inl err)
  then show ?thesis by (simp add: AnalyzeCode_failed syntax_error_issue_def)
next
  case (Inr node)
  then show ?thesis
    by (simp add: AnalyzeCode_parsed detectSecurityIssues_elems suggestBestPractices_elems
          generateAIRecommendations_elems dml_keywords_def)
qed

theorem empty_text_result_witness:
  "SecurityIssues (AnalyzeCode go_ParseFile 0 [] ''go'' ''empty.go'')
     = Slice [syntax_error_issue
               (''empty.go'' @ '':1:1: expected '' @ [CHR 0x27] @ ''package'' @ [CHR 0x27]
                  @ '', found '' @ [CHR 0x27] @ ''EOF'' @ [CHR 0x27])]
   \<and> PerformanceHints (AnalyzeCode go_ParseFile 0 [] ''go'' ''empty.go'') = Slice []
   \<and> BestPractices (AnalyzeCode go_ParseFile 0 [] ''go'' ''empty.go'') = Slice []
   \<and> AIRecommendations (AnalyzeCode go_ParseFile 0 [] ''go'' ''empty.go'') = Slice []
   \<and> CodeComplexity (AnalyzeCode go_ParseFile 0 [] ''go'' ''empty.go'') = 0
   \<and> PerformanceScore (AnalyzeCode go_ParseFile 0 [] ''go'' ''empty.go'') = 0
   \<and> PerformanceGrade (AnalyzeCode go_ParseFile 0 [] ''go'' ''empty.go'') = []"
  using empty_text_result [of go_ParseFile 0 "''go''" "''empty.go''", unfolded Let_def]
        go_ParseFile_empty [of "''empty.go''"]
  by blast

text \<open>
  The claim as first stated fails on the empty text: the result has a security finding,
  and its score and grade are 0 and the empty string.
\<close>

theorem empty_text_has_finding_counterexample:
  "\<not> (elems (SecurityIssues (AnalyzeCode go_ParseFile 0 [] ''go'' ''empty.go'')) = []
        \<and> elems (PerformanceHints (AnalyzeCode go_ParseFile 0 [] ''go'' ''empty.go'')) = []
        \<and> elems (BestPractices (AnalyzeCode go_ParseFile 0 [] ''go'' ''empty.go'')) = []
        \<and> elems (AIRecommendations (AnalyzeCode go_ParseFile 0 [] ''go'' ''empty.go'')) = []
        \<and> CodeComplexity (AnalyzeCode go_ParseFile 0 [] ''go'' ''empty.go'') = 0
        \<and> PerformanceScore (AnalyzeCode go_ParseFile 0 [] ''go'' ''empty.go'') = 100
        \<and> PerformanceGrade (AnalyzeCode go_ParseFile 0 [] ''go'' ''empty.go'') = ''A+'')"
  by (simp add: AnalyzeCode_failed [where ParseFile = go_ParseFile, OF go_ParseFile_empty])

end
